theory Spec2Isabelle
  imports Complex_Main "HOL-Library.AList"
begin

section \<open>Python values, exceptions and the environment\<close>

text \<open>
  The module \<^verbatim>\<open>server_listener.py\<close> is embedded function by function. Python
  \<^verbatim>\<open>bytes\<close> and \<^verbatim>\<open>str\<close> are both lists of 8-bit characters; a raised exception is
  the \<open>Inl\<close> of a sum; every call into the operating system or into a library outside
  this module is answered by a field of the record \<open>env\<close>, and the effects on the
  operating system are recorded in the record \<open>world\<close>, which is passed along.
  Log messages are left out. \<^verbatim>\<open>setup_server_listener\<close>, which picks the kernel's five
  ports with \<^verbatim>\<open>_select_ports\<close> and starts \<^verbatim>\<open>server_listener\<close> in a thread or a process
  of its own, is not embedded beyond \<^verbatim>\<open>_select_ports\<close>.
\<close>

type_synonym bytes = string
type_synonym str = string

datatype pyfloat = Finite rat | PosInf | NegInf | NaN

text \<open>What \<^verbatim>\<open>json.load\<close> and \<^verbatim>\<open>json.loads\<close> return; \<open>JNull\<close> is Python's \<^verbatim>\<open>None\<close>, a
  \<^verbatim>\<open>dict\<close> is its items in insertion order (the keys distinct).\<close>

datatype json =
    JNull
  | JBool bool
  | JInt int
  | JFloat pyfloat
  | JString str
  | JArray "json list"
  | JObject "(str \<times> json) list"

text \<open>The exceptions this module can see. \<open>RuntimeError lower upper retries\<close> is the one
  \<^verbatim>\<open>_select_socket\<close> raises; its three arguments are the three values its message
  prints.\<close>

datatype exn =
    SocketTimeout
  | RuntimeError int int int
  | AttributeError
  | TypeError
  | ValueError
  | OverflowError
  | JSONDecodeError
  | UnicodeDecodeError
  | BinasciiError
  | ProcessLookupError
  | PermissionError
  | OSError

text \<open>One \<^verbatim>\<open>conn.recv(1024)\<close>: the bytes received, or the exception raised.\<close>

datatype recv_result = Data bytes | RecvRaises exn

text \<open>One \<^verbatim>\<open>sock.accept()\<close>: no connection within the timeout, another exception, or a
  connection with what its \<^verbatim>\<open>recv\<close> calls return, in order; after the last of them the peer
  has closed its side and \<^verbatim>\<open>recv\<close> returns \<^verbatim>\<open>b''\<close>.\<close>

datatype accept_result = AcceptTimeout | AcceptRaises exn | Connection "recv_result list"

text \<open>The effects the module has on the outside, in the order they happen.\<close>

datatype event =
    Bind int
  | CloseSock int
  | Listen int
  | Connect str int
  | Send bytes
  | ClosePush
  | Accept int
  | CloseConn
  | Signal int int
  | KillFailed int int exn

record world =
  tick :: nat
  bound :: "int list"
  incoming :: "accept_result list"
  trace :: "event list"

text \<open>
  \<open>tick\<close> counts the calls answered by the environment so far, so that an answer may
  depend on when the call is made; \<open>bound\<close> holds the ports of the sockets this process
  has bound and not closed; \<open>incoming\<close> is what the coming \<^verbatim>\<open>accept\<close> calls will see (when
  it is empty, nobody connects and \<^verbatim>\<open>accept\<close> times out).
\<close>

record env =
  max_port_range_retries :: int
  SIGUSR2 :: int
  randint_src :: "nat \<Rightarrow> nat"
  port_free :: "nat \<Rightarrow> int \<Rightarrow> bool"
  ephemeral :: "nat \<Rightarrow> int"
  getpid :: int
  getpgid :: "int \<Rightarrow> int"
  load_json_file :: "str \<Rightarrow> exn + json"
  connect_result :: "nat \<Rightarrow> str \<Rightarrow> int \<Rightarrow> exn option"
  send_result :: "nat \<Rightarrow> bytes \<Rightarrow> exn option"
  kill_result :: "nat \<Rightarrow> int \<Rightarrow> int \<Rightarrow> exn option"
  int_of_str :: "str \<Rightarrow> int option"
  decode_utf8 :: "bytes \<Rightarrow> str option"
  json_loads :: "str \<Rightarrow> json option"
  json_dumps :: "json \<Rightarrow> bytes"
  get_random_bytes :: "nat \<Rightarrow> nat \<Rightarrow> bytes"
  aes_ecb_encrypt :: "bytes \<Rightarrow> bytes \<Rightarrow> bytes"
  b64decode :: "bytes \<Rightarrow> bytes option"
  rsa_import_key :: "bytes \<Rightarrow> bytes option"
  pkcs1_v1_5_encrypt :: "nat \<Rightarrow> bytes \<Rightarrow> bytes \<Rightarrow> exn + bytes"

text \<open>
  \<open>max_port_range_retries\<close> is the module constant read from the process environment,
  \<open>SIGUSR2\<close> the platform's number of that signal. \<open>randint_src t\<close> is the raw random
  draw at time \<open>t\<close>. \<open>port_free t p\<close> says whether the operating system would let this
  process bind port \<open>p\<close> at time \<open>t\<close> as far as other processes and permissions go, and
  \<open>ephemeral t\<close> is the port it would pick for a bind to port 0. \<open>load_json_file\<close> is
  \<^verbatim>\<open>open\<close> followed by \<^verbatim>\<open>json.load\<close>. For \<open>connect_result\<close>, \<open>send_result\<close> and
  \<open>kill_result\<close>, \<open>None\<close> is success. \<open>int_of_str\<close> is \<^verbatim>\<open>int\<close> on a \<^verbatim>\<open>str\<close>
  (\<open>None\<close>: ValueError), \<open>decode_utf8\<close> is \<^verbatim>\<open>bytes.decode("utf-8")\<close> (\<open>None\<close>:
  UnicodeDecodeError), \<open>json_loads\<close> is \<^verbatim>\<open>json.loads\<close> (\<open>None\<close>: JSONDecodeError),
  \<open>json_dumps j\<close> is \<^verbatim>\<open>json.dumps(j).encode(encoding="utf-8")\<close>. The last five fields
  are the library calls of \<^verbatim>\<open>_encrypt\<close>: \<open>get_random_bytes t n\<close> are the \<open>n\<close> random bytes
  drawn at time \<open>t\<close>, \<open>aes_ecb_encrypt key data\<close> is AES in ECB mode, \<open>b64decode\<close> is
  \<^verbatim>\<open>base64.b64decode\<close> (\<open>None\<close>: binascii.Error), \<open>rsa_import_key\<close> is \<^verbatim>\<open>RSA.importKey\<close>
  (\<open>None\<close>: ValueError) and \<open>pkcs1_v1_5_encrypt t key message\<close> is the encryption of
  \<^verbatim>\<open>PKCS1_v1_5\<close> with the random padding drawn at time \<open>t\<close>.
\<close>

definition LAUNCHER_VERSION :: int where
  "LAUNCHER_VERSION = 1"

definition emit :: "event \<Rightarrow> world \<Rightarrow> world" where
  "emit e w = w\<lparr>tick := Suc (tick w), trace := trace w @ [e]\<rparr>"

section \<open>Port allocation\<close>

text \<open>\<^verbatim>\<open>random.randint(a, b)\<close>: a value in \<open>[a, b]\<close>, ValueError when the range is empty.\<close>

definition randint :: "env \<Rightarrow> nat \<Rightarrow> int \<Rightarrow> int \<Rightarrow> exn + int" where
  "randint env t a b =
     (if b < a then Inl ValueError
      else Inr (a + int (randint_src env t mod nat (b - a + 1))))"

definition get_candidate_port :: "env \<Rightarrow> nat \<Rightarrow> int \<Rightarrow> int \<Rightarrow> exn + int" where
  "get_candidate_port env t lower_port upper_port =
     (let range_size = upper_port - lower_port
      in if range_size = 0 then Inr 0 else randint env t lower_port upper_port)"

text \<open>
  \<^verbatim>\<open>sock.bind(("0.0.0.0", p))\<close> on a fresh socket. A port outside 0..65535 is an
  OverflowError; port 0 asks the operating system for a port of its choice; the bind is
  refused when the port is held by an open socket of this process or is not free
  otherwise. The result is the port the socket is bound to.
\<close>

definition sock_bind :: "env \<Rightarrow> int \<Rightarrow> world \<Rightarrow> (exn + int) \<times> world" where
  "sock_bind env p w =
     (let w1 = emit (Bind p) w
      in if p < 0 \<or> 65535 < p then (Inl OverflowError, w1)
         else
           let q = (if p = 0 then ephemeral env (tick w) else p)
           in if 1 \<le> q \<and> q \<le> 65535 \<and> port_free env (tick w) q \<and> q \<notin> set (bound w)
              then (Inr q, w1\<lparr>bound := bound w @ [q]\<rparr>)
              else (Inl OSError, w1))"

definition sock_close :: "int \<Rightarrow> world \<Rightarrow> world" where
  "sock_close q w = (emit (CloseSock q) w)\<lparr>bound := removeAll q (bound w)\<rparr>"

text \<open>The body of the \<^verbatim>\<open>try\<close> in \<^verbatim>\<open>_select_socket\<close>: the candidate, then the bind.\<close>

definition try_bind :: "env \<Rightarrow> int \<Rightarrow> int \<Rightarrow> world \<Rightarrow> (exn + int) \<times> world" where
  "try_bind env lower_port upper_port w =
     (case get_candidate_port env (tick w) lower_port upper_port of
        Inl e \<Rightarrow> (Inl e, w\<lparr>tick := Suc (tick w)\<rparr>)
      | Inr p \<Rightarrow> sock_bind env p (w\<lparr>tick := Suc (tick w)\<rparr>))"

text \<open>The \<^verbatim>\<open>while not found_port\<close> loop of \<^verbatim>\<open>_select_socket\<close>, from a given value of
  \<^verbatim>\<open>retries\<close>. A socket is named by the port it is bound to.\<close>

function select_socket_loop ::
  "env \<Rightarrow> int \<Rightarrow> int \<Rightarrow> int \<Rightarrow> world \<Rightarrow> (exn + int) \<times> world" where
  "select_socket_loop env lower_port upper_port retries w =
     (case try_bind env lower_port upper_port w of
        (Inr q, w1) \<Rightarrow> (Inr q, w1)
      | (Inl e, w1) \<Rightarrow>
          (let retries1 = retries + 1
           in if retries1 > max_port_range_retries env
              then (Inl (RuntimeError lower_port upper_port (max_port_range_retries env)), w1)
              else select_socket_loop env lower_port upper_port retries1 w1))"
  by pat_completeness auto
termination
  by (relation "measure (\<lambda>(env, lo, hi, retries, w). nat (max_port_range_retries env + 1 - retries))")
     auto

definition select_socket :: "env \<Rightarrow> int \<Rightarrow> int \<Rightarrow> world \<Rightarrow> (exn + int) \<times> world" where
  "select_socket env lower_port upper_port w = select_socket_loop env lower_port upper_port 0 w"

text \<open>The first loop of \<^verbatim>\<open>_select_ports\<close>, with \<open>n\<close> iterations to go.\<close>

fun select_ports_loop ::
  "env \<Rightarrow> nat \<Rightarrow> int \<Rightarrow> int \<Rightarrow> int list \<Rightarrow> int list \<Rightarrow> world
     \<Rightarrow> (exn + int list \<times> int list) \<times> world" where
  "select_ports_loop env 0 lower_port upper_port ports sockets w = (Inr (ports, sockets), w)"
| "select_ports_loop env (Suc n) lower_port upper_port ports sockets w =
     (case select_socket env lower_port upper_port w of
        (Inl e, w1) \<Rightarrow> (Inl e, w1)
      | (Inr sock, w1) \<Rightarrow>
          select_ports_loop env n lower_port upper_port (ports @ [sock]) (sockets @ [sock]) w1)"

definition select_ports :: "env \<Rightarrow> int \<Rightarrow> int \<Rightarrow> int \<Rightarrow> world \<Rightarrow> (exn + int list) \<times> world" where
  "select_ports env count lower_port upper_port w =
     (case select_ports_loop env (nat count) lower_port upper_port [] [] w of
        (Inl e, w1) \<Rightarrow> (Inl e, w1)
      | (Inr (ports, sockets), w1) \<Rightarrow> (Inr ports, fold sock_close sockets w1))"

definition prepare_comm_socket :: "env \<Rightarrow> int \<Rightarrow> int \<Rightarrow> world \<Rightarrow> (exn + int) \<times> world" where
  "prepare_comm_socket env lower_port upper_port w =
     (case select_socket env lower_port upper_port w of
        (Inl e, w1) \<Rightarrow> (Inl e, w1)
      | (Inr sock, w1) \<Rightarrow> (Inr sock, emit (Listen sock) w1))"

definition bind_attempts :: "world \<Rightarrow> nat" where
  "bind_attempts w = length (filter (\<lambda>e. case e of Bind p \<Rightarrow> True | _ \<Rightarrow> False) (trace w))"

section \<open>The encrypted payload\<close>

text \<open>\<^verbatim>\<open>Cryptodome.Util.Padding.pad(data, 16)\<close>: PKCS7, between 1 and 16 bytes, each holding
  the number of bytes added.\<close>

definition pad16 :: "bytes \<Rightarrow> bytes" where
  "pad16 data =
     (let padding_len = 16 - length data mod 16
      in data @ replicate padding_len (char_of padding_len))"

text \<open>\<^verbatim>\<open>base64.b64encode\<close>: the standard alphabet, three bytes to four characters, padded
  with \<^verbatim>\<open>=\<close>.\<close>

definition b64char :: "nat \<Rightarrow> char" where
  "b64char n =
     (if n < 26 then char_of (65 + n)
      else if n < 52 then char_of (71 + n)
      else if n < 62 then char_of (n - 4)
      else if n = 62 then CHR ''+''
      else CHR ''/'')"

fun b64encode :: "bytes \<Rightarrow> bytes" where
  "b64encode [] = []"
| "b64encode [a] =
     (let x = (of_char a :: nat)
      in [b64char (x div 4), b64char ((x mod 4) * 16), CHR ''='', CHR ''=''])"
| "b64encode [a, b] =
     (let x = (of_char a :: nat); y = (of_char b :: nat)
      in [b64char (x div 4), b64char ((x mod 4) * 16 + y div 16),
          b64char ((y mod 16) * 4), CHR ''=''])"
| "b64encode (a # b # c # rest) =
     (let x = (of_char a :: nat); y = (of_char b :: nat); z = (of_char c :: nat)
      in [b64char (x div 4), b64char ((x mod 4) * 16 + y div 16),
          b64char ((y mod 16) * 4 + z div 64), b64char (z mod 64)] @ b64encode rest)"

text \<open>The dictionary \<^verbatim>\<open>payload\<close> of \<^verbatim>\<open>_encrypt\<close>.\<close>

definition envelope :: "bytes \<Rightarrow> bytes \<Rightarrow> json" where
  "envelope encrypted_key b64_connection_info =
     JObject [(''version'', JInt LAUNCHER_VERSION),
              (''key'', JString encrypted_key),
              (''conn_info'', JString b64_connection_info)]"

text \<open>\<^verbatim>\<open>_encrypt\<close> up to the dictionary \<^verbatim>\<open>payload\<close>.\<close>

definition encrypt_payload :: "env \<Rightarrow> bytes \<Rightarrow> str \<Rightarrow> world \<Rightarrow> (exn + json) \<times> world" where
  "encrypt_payload env connection_info_bytes public_key w =
     (let aes_key = get_random_bytes env (tick w) 16;
          w1 = w\<lparr>tick := Suc (tick w)\<rparr>;
          encrypted_connection_info = aes_ecb_encrypt env aes_key (pad16 connection_info_bytes);
          b64_connection_info = b64encode encrypted_connection_info
      in case b64decode env public_key of
           None \<Rightarrow> (Inl BinasciiError, w1)
         | Some der \<Rightarrow>
            (case rsa_import_key env der of
               None \<Rightarrow> (Inl ValueError, w1)
             | Some imported_public_key \<Rightarrow>
                (case pkcs1_v1_5_encrypt env (tick w1) imported_public_key aes_key of
                   Inl e \<Rightarrow> (Inl e, w1\<lparr>tick := Suc (tick w1)\<rparr>)
                 | Inr c \<Rightarrow>
                    (let encrypted_key = b64encode c
                     in (Inr (envelope encrypted_key b64_connection_info),
                         w1\<lparr>tick := Suc (tick w1)\<rparr>)))))"

text \<open>\<^verbatim>\<open>_encrypt\<close>: the payload, serialised and Base64 encoded.\<close>

definition encrypt :: "env \<Rightarrow> bytes \<Rightarrow> str \<Rightarrow> world \<Rightarrow> (exn + bytes) \<times> world" where
  "encrypt env connection_info_bytes public_key w =
     (case encrypt_payload env connection_info_bytes public_key w of
        (Inl e, w1) \<Rightarrow> (Inl e, w1)
      | (Inr payload, w1) \<Rightarrow> (Inr (b64encode (json_dumps env payload)), w1))"

subsection \<open>The controller's side\<close>

text \<open>
  The decryption is the controller's and is not part of this module. The four definitions
  of this subsection are written from the spec's description of it, which names its
  steps: Base64-decode the envelope, parse the JSON object with \<open>version\<close>, \<open>key\<close> and
  \<open>conn_info\<close>, unwrap the AES key with the private key, AES-decrypt \<open>conn_info\<close> and
  remove the padding.
\<close>

text \<open>Modelled from the spec: the value of a character of the Base64 alphabet, for the
  Base64 decoding the controller does, which is missing from the sources.\<close>

definition b64val :: "char \<Rightarrow> nat option" where
  "b64val c =
     (let n = (of_char c :: nat)
      in if 65 \<le> n \<and> n \<le> 90 then Some (n - 65)
         else if 97 \<le> n \<and> n \<le> 122 then Some (n - 71)
         else if 48 \<le> n \<and> n \<le> 57 then Some (n + 4)
         else if n = 43 then Some 62
         else if n = 47 then Some 63
         else None)"

text \<open>Modelled from the spec: the Base64 decoding the controller does, which is missing
  from the sources; four characters to three bytes, \<^verbatim>\<open>=\<close> only as padding at the end,
  \<open>None\<close> for any other text.\<close>

fun b64decode_strict :: "bytes \<Rightarrow> bytes option" where
  "b64decode_strict [] = Some []"
| "b64decode_strict (c1 # c2 # c3 # c4 # rest) =
     (case (b64val c1, b64val c2) of
        (Some v1, Some v2) \<Rightarrow>
          (if c3 = CHR ''='' \<and> c4 = CHR ''='' \<and> rest = []
           then Some [char_of (v1 * 4 + v2 div 16)]
           else
             (case b64val c3 of
                None \<Rightarrow> None
              | Some v3 \<Rightarrow>
                 (if c4 = CHR ''='' \<and> rest = []
                  then Some [char_of (v1 * 4 + v2 div 16), char_of ((v2 mod 16) * 16 + v3 div 4)]
                  else
                    (case (b64val c4, b64decode_strict rest) of
                       (Some v4, Some bs) \<Rightarrow>
                         Some (char_of (v1 * 4 + v2 div 16)
                               # char_of ((v2 mod 16) * 16 + v3 div 4)
                               # char_of ((v3 mod 4) * 64 + v4) # bs)
                     | _ \<Rightarrow> None))))
      | _ \<Rightarrow> None)"
| "b64decode_strict other = None"

text \<open>Modelled from the spec: the unpadding the controller does, which is missing from
  the sources; the last byte says how many bytes to drop, and all of them hold it.\<close>

definition unpad16 :: "bytes \<Rightarrow> bytes option" where
  "unpad16 data =
     (if data = [] \<or> length data mod 16 \<noteq> 0 then None
      else
        let padding_len = (of_char (last data) :: nat)
        in if padding_len < 1 \<or> 16 < padding_len then None
           else if drop (length data - padding_len) data = replicate padding_len (last data)
           then Some (take (length data - padding_len) data)
           else None)"

text \<open>Modelled from the spec: the controller's decryption, which is missing from the
  sources, step by step as the spec lists them. The RSA and the AES decryption are its
  first two parameters, the private key the third.\<close>

definition decrypt ::
  "env \<Rightarrow> (bytes \<Rightarrow> bytes \<Rightarrow> bytes option) \<Rightarrow> (bytes \<Rightarrow> bytes \<Rightarrow> bytes) \<Rightarrow> bytes \<Rightarrow> bytes
     \<Rightarrow> bytes option" where
  "decrypt env rsa_decrypt aes_ecb_decrypt private_key b64_payload =
     (case b64decode_strict b64_payload of
        None \<Rightarrow> None
      | Some json_bytes \<Rightarrow>
         (case decode_utf8 env json_bytes of
            None \<Rightarrow> None
          | Some json_text \<Rightarrow>
             (case json_loads env json_text of
                Some (JObject kvs) \<Rightarrow>
                  (case (map_of kvs ''key'', map_of kvs ''conn_info'') of
                     (Some (JString k), Some (JString c)) \<Rightarrow>
                       (case (b64decode_strict k, b64decode_strict c) of
                          (Some encrypted_key, Some encrypted_connection_info) \<Rightarrow>
                            (case rsa_decrypt private_key encrypted_key of
                               None \<Rightarrow> None
                             | Some aes_key \<Rightarrow>
                                unpad16 (aes_ecb_decrypt aes_key encrypted_connection_info))
                        | _ \<Rightarrow> None)
                   | _ \<Rightarrow> None)
              | _ \<Rightarrow> None)))"

text \<open>The controller reads back the JSON text the launcher wrote for \<open>j\<close>.\<close>

definition json_round_trip :: "env \<Rightarrow> json \<Rightarrow> bool" where
  "json_round_trip env j =
     (case decode_utf8 env (json_dumps env j) of
        None \<Rightarrow> False
      | Some s \<Rightarrow> json_loads env s = Some j)"

section \<open>The handshake\<close>

text \<open>\<^verbatim>\<open>str.split(sep)\<close> with a one-character separator: always at least one part.\<close>

fun split_on :: "char \<Rightarrow> str \<Rightarrow> str list" where
  "split_on sep [] = [[]]"
| "split_on sep (c # cs) =
     (if c = sep then [] # split_on sep cs
      else (case split_on sep cs of
              [] \<Rightarrow> [[c]]
            | part # parts \<Rightarrow> (c # part) # parts))"

text \<open>The four assignments \<^verbatim>\<open>cf_json[...] = ...\<close> of \<^verbatim>\<open>return_connection_info\<close>, in the
  order of the source, on the items of the dictionary.\<close>

definition add_ids :: "int \<Rightarrow> int \<Rightarrow> int \<Rightarrow> str \<Rightarrow> (str \<times> json) list \<Rightarrow> (str \<times> json) list" where
  "add_ids pid pgid comm_port kernel_id cf =
     AList.update ''kernel_id'' (JString kernel_id)
       (AList.update ''comm_port'' (JInt comm_port)
         (AList.update ''pgid'' (JInt pgid)
           (AList.update ''pid'' (JInt pid) cf)))"

text \<open>The \<^verbatim>\<open>with socket.socket(...) as s\<close> block: connect, encrypt, send; the socket is
  closed on every way out.\<close>

definition push_payload ::
  "env \<Rightarrow> str \<Rightarrow> int \<Rightarrow> json \<Rightarrow> str \<Rightarrow> world \<Rightarrow> (exn + unit) \<times> world" where
  "push_payload env response_ip response_port cf_json public_key w =
     (let w1 = emit (Connect response_ip response_port) w
      in case connect_result env (tick w) response_ip response_port of
           Some e \<Rightarrow> (Inl e, emit ClosePush w1)
         | None \<Rightarrow>
            (let json_content = json_dumps env cf_json
             in case encrypt env json_content public_key w1 of
                  (Inl e, w2) \<Rightarrow> (Inl e, emit ClosePush w2)
                | (Inr payload, w2) \<Rightarrow>
                   (let w3 = emit (Send payload) w2
                    in case send_result env (tick w2) payload of
                         Some e \<Rightarrow> (Inl e, emit ClosePush w3)
                       | None \<Rightarrow> (Inr (), emit ClosePush w3))))"

text \<open>The result \<open>Inr None\<close> is the bare \<^verbatim>\<open>return\<close> of the source (Python's \<^verbatim>\<open>None\<close>),
  \<open>Inr (Some sock)\<close> is \<^verbatim>\<open>return comm_sock\<close>.\<close>

definition return_connection_info ::
  "env \<Rightarrow> str \<Rightarrow> str \<Rightarrow> int \<Rightarrow> int \<Rightarrow> str \<Rightarrow> str \<Rightarrow> world \<Rightarrow> (exn + int option) \<times> world" where
  "return_connection_info env connection_file response_addr lower_port upper_port kernel_id
       public_key w =
     (let response_parts = split_on CHR '':'' response_addr
      in if length response_parts \<noteq> 2 then (Inr None, w)
         else
           let response_ip = response_parts ! 0
           in case int_of_str env (response_parts ! 1) of
                None \<Rightarrow> (Inr None, w)
              | Some response_port \<Rightarrow>
                 (case load_json_file env connection_file of
                    Inl e \<Rightarrow> (Inl e, w)
                  | Inr (JObject cf) \<Rightarrow>
                     (let pid = getpid env; pgid = getpgid env pid
                      in case prepare_comm_socket env lower_port upper_port w of
                           (Inl e, w1) \<Rightarrow> (Inl e, w1)
                         | (Inr comm_sock, w1) \<Rightarrow>
                            (let cf_json = JObject (add_ids pid pgid comm_sock kernel_id cf)
                             in case push_payload env response_ip response_port cf_json
                                       public_key w1 of
                                  (Inl e, w2) \<Rightarrow> (Inl e, w2)
                                | (Inr u, w2) \<Rightarrow> (Inr (Some comm_sock), w2)))
                  | Inr other \<Rightarrow> (Inl TypeError, w)))"

section \<open>The control listener\<close>

text \<open>The \<^verbatim>\<open>if buffer == b''\<close> branch of \<^verbatim>\<open>get_server_request\<close>: the request is complete.\<close>

definition request_complete :: "env \<Rightarrow> str \<Rightarrow> exn + json" where
  "request_complete env data =
     (if length data > 0
      then (case json_loads env data of None \<Rightarrow> Inl JSONDecodeError | Some j \<Rightarrow> Inr j)
      else Inr JNull)"

text \<open>The \<^verbatim>\<open>while True\<close> loop of \<^verbatim>\<open>get_server_request\<close> over what \<^verbatim>\<open>recv\<close> returns.\<close>

fun recv_loop :: "env \<Rightarrow> str \<Rightarrow> recv_result list \<Rightarrow> exn + json" where
  "recv_loop env data [] = request_complete env data"
| "recv_loop env data (RecvRaises e # rest) = Inl e"
| "recv_loop env data (Data buffer # rest) =
     (if buffer = [] then request_complete env data
      else (case decode_utf8 env buffer of
              None \<Rightarrow> Inl UnicodeDecodeError
            | Some s \<Rightarrow> recv_loop env (data @ s) rest))"

text \<open>The \<^verbatim>\<open>except\<close> clause of \<^verbatim>\<open>get_server_request\<close>: a timeout is swallowed and
  \<^verbatim>\<open>request_info\<close>, still \<^verbatim>\<open>None\<close>, is returned; anything else is raised again.\<close>

definition except_clause :: "exn \<Rightarrow> exn + json" where
  "except_clause ex = (if ex \<noteq> SocketTimeout then Inl ex else Inr JNull)"

definition get_server_request :: "env \<Rightarrow> int option \<Rightarrow> world \<Rightarrow> (exn + json) \<times> world" where
  "get_server_request env sock w =
     (case sock of
        None \<Rightarrow> (except_clause AttributeError, w)
      | Some p \<Rightarrow>
         (let w1 = (emit (Accept p) w)\<lparr>incoming := tl (incoming w)\<rparr>
          in case incoming w of
               [] \<Rightarrow> (except_clause SocketTimeout, w1)
             | AcceptTimeout # later \<Rightarrow> (except_clause SocketTimeout, w1)
             | AcceptRaises e # later \<Rightarrow> (except_clause e, w1)
             | Connection chunks # later \<Rightarrow>
                 (case recv_loop env [] chunks of
                    Inl e \<Rightarrow> (except_clause e, emit CloseConn w1)
                  | Inr request_info \<Rightarrow> (Inr request_info, emit CloseConn w1))))"

text \<open>Truth value of a Python object (\<^verbatim>\<open>if request:\<close>, \<^verbatim>\<open>bool(...)\<close>).\<close>

fun truthy :: "json \<Rightarrow> bool" where
  "truthy JNull = False"
| "truthy (JBool b) = b"
| "truthy (JInt n) = (n \<noteq> 0)"
| "truthy (JFloat x) = (x \<noteq> Finite 0)"
| "truthy (JString s) = (s \<noteq> [])"
| "truthy (JArray xs) = (xs \<noteq> [])"
| "truthy (JObject kvs) = (kvs \<noteq> [])"

text \<open>\<^verbatim>\<open>int(x)\<close> for a value out of \<^verbatim>\<open>json.loads\<close>; a float is truncated towards zero.\<close>

fun py_int :: "env \<Rightarrow> json \<Rightarrow> exn + int" where
  "py_int env JNull = Inl TypeError"
| "py_int env (JBool b) = Inr (if b then 1 else 0)"
| "py_int env (JInt n) = Inr n"
| "py_int env (JFloat (Finite q)) = Inr (if 0 \<le> q then \<lfloor>q\<rfloor> else \<lceil>q\<rceil>)"
| "py_int env (JFloat PosInf) = Inl OverflowError"
| "py_int env (JFloat NegInf) = Inl OverflowError"
| "py_int env (JFloat NaN) = Inl ValueError"
| "py_int env (JString s) = (case int_of_str env s of None \<Rightarrow> Inl ValueError | Some n \<Rightarrow> Inr n)"
| "py_int env (JArray xs) = Inl TypeError"
| "py_int env (JObject kvs) = Inl TypeError"

text \<open>\<^verbatim>\<open>request.get(key)\<close>: only a \<^verbatim>\<open>dict\<close> has the method; a missing key gives \<^verbatim>\<open>None\<close>.\<close>

definition request_get :: "json \<Rightarrow> str \<Rightarrow> exn + json" where
  "request_get request key =
     (case request of
        JObject kvs \<Rightarrow> (case map_of kvs key of None \<Rightarrow> Inr JNull | Some v \<Rightarrow> Inr v)
      | _ \<Rightarrow> Inl AttributeError)"

definition os_kill :: "env \<Rightarrow> int \<Rightarrow> int \<Rightarrow> world \<Rightarrow> (exn + unit) \<times> world" where
  "os_kill env pid signum w =
     (case kill_result env (tick w) pid signum of
        None \<Rightarrow> (Inr (), emit (Signal pid signum) w)
      | Some e \<Rightarrow> (Inl e, emit (KillFailed pid signum e) w))"

text \<open>The \<^verbatim>\<open>if request.get("signum") is not None\<close> block of \<^verbatim>\<open>server_listener\<close>.\<close>

definition relay_signal ::
  "env \<Rightarrow> int \<Rightarrow> str option \<Rightarrow> json \<Rightarrow> world \<Rightarrow> (exn + unit) \<times> world" where
  "relay_signal env parent_pid cluster_type value w =
     (case py_int env value of
        Inl e \<Rightarrow> (Inl e, w)
      | Inr signum \<Rightarrow>
         (case os_kill env parent_pid signum w of
            (Inl e, w1) \<Rightarrow> (Inl e, w1)
          | (Inr u, w1) \<Rightarrow>
             (if signum = 2 \<and> cluster_type = Some ''spark''
              then os_kill env parent_pid (SIGUSR2 env) w1
              else (Inr (), w1))))"

text \<open>The body of the \<^verbatim>\<open>while not shutdown\<close> loop after the request has arrived; the result
  is the value of \<^verbatim>\<open>shutdown\<close> at the end of the body.\<close>

definition process_request ::
  "env \<Rightarrow> int \<Rightarrow> str option \<Rightarrow> json \<Rightarrow> world \<Rightarrow> (exn + bool) \<times> world" where
  "process_request env parent_pid cluster_type request w =
     (if truthy request then
        (case request_get request ''signum'' of
           Inl e \<Rightarrow> (Inl e, w)
         | Inr sig_value \<Rightarrow>
            (case (if sig_value \<noteq> JNull
                   then relay_signal env parent_pid cluster_type sig_value w
                   else (Inr (), w)) of
               (Inl e, w1) \<Rightarrow> (Inl e, w1)
             | (Inr u, w1) \<Rightarrow>
                (case request_get request ''shutdown'' of
                   Inl e \<Rightarrow> (Inl e, w1)
                 | Inr sh_value \<Rightarrow>
                    (Inr (if sh_value \<noteq> JNull then truthy sh_value else False), w1))))
      else (Inr False, w))"

text \<open>How a run of the listener stands after a number of iterations of its loop.\<close>

datatype outcome = StillListening | Raised exn | Returned

text \<open>The \<^verbatim>\<open>while not shutdown\<close> loop, for at most \<open>n\<close> iterations.\<close>

fun listener_loop ::
  "env \<Rightarrow> int \<Rightarrow> str option \<Rightarrow> int option \<Rightarrow> nat \<Rightarrow> world \<Rightarrow> outcome \<times> world" where
  "listener_loop env parent_pid cluster_type comm_socket 0 w = (StillListening, w)"
| "listener_loop env parent_pid cluster_type comm_socket (Suc n) w =
     (case get_server_request env comm_socket w of
        (Inl e, w1) \<Rightarrow> (Raised e, w1)
      | (Inr request, w1) \<Rightarrow>
         (case process_request env parent_pid cluster_type request w1 of
            (Inl e, w2) \<Rightarrow> (Raised e, w2)
          | (Inr shutdown, w2) \<Rightarrow>
             (if shutdown then (Returned, w2)
              else listener_loop env parent_pid cluster_type comm_socket n w2)))"

text \<open>
  Leaving \<^verbatim>\<open>server_listener\<close>, by its return or by an exception. The listening socket is
  referenced only by the local variable \<^verbatim>\<open>comm_socket\<close> (by \<^verbatim>\<open>comm_sock\<close> while
  \<^verbatim>\<open>return_connection_info\<close> runs); no statement of the module closes it. When the
  function is left the socket object is discarded, and Python closes a socket that is
  discarded. \<open>discard_sockets w0 w\<close> closes the sockets bound since the world \<open>w0\<close> in
  which the function was entered and still open in \<open>w\<close>.
\<close>

definition discard_sockets :: "world \<Rightarrow> world \<Rightarrow> world" where
  "discard_sockets w0 w = fold sock_close (filter (\<lambda>p. p \<notin> set (bound w0)) (bound w)) w"

definition leave_function :: "world \<Rightarrow> outcome \<times> world \<Rightarrow> outcome \<times> world" where
  "leave_function w0 r =
     (case r of
        (StillListening, w) \<Rightarrow> (StillListening, w)
      | (Raised e, w) \<Rightarrow> (Raised e, discard_sockets w0 w)
      | (Returned, w) \<Rightarrow> (Returned, discard_sockets w0 w))"

definition server_listener ::
  "env \<Rightarrow> str \<Rightarrow> str \<Rightarrow> int \<Rightarrow> int \<Rightarrow> str \<Rightarrow> str \<Rightarrow> int \<Rightarrow> str option \<Rightarrow> nat \<Rightarrow> world
     \<Rightarrow> outcome \<times> world" where
  "server_listener env connection_file response_addr lower_port upper_port kernel_id public_key
       parent_pid cluster_type n w =
     leave_function w
       (case return_connection_info env connection_file response_addr lower_port upper_port
               kernel_id public_key w of
          (Inl e, w1) \<Rightarrow> (Raised e, w1)
        | (Inr comm_socket, w1) \<Rightarrow> listener_loop env parent_pid cluster_type comm_socket n w1)"

text \<open>The number of \<^verbatim>\<open>accept\<close> calls made so far.\<close>

definition accept_calls :: "world \<Rightarrow> nat" where
  "accept_calls w = length (filter (\<lambda>e. case e of Accept p \<Rightarrow> True | _ \<Rightarrow> False) (trace w))"

section \<open>An environment to run the model in\<close>

text \<open>
  The examples below run the functions above in one concrete environment. Its library
  functions are small stand-ins. \<open>decimal_int\<close> reads an optional minus sign and ASCII
  digits, as \<^verbatim>\<open>int\<close> does on such a string, and rejects everything else.
  \<open>example_loads\<close> knows the JSON texts the examples receive, and every other text is
  malformed for it. \<open>json_dumps\<close> writes the envelope of the encryption example as its
  JSON text and anything else as the text of the empty object. The cipher that stands for
  AES and for RSA shifts every byte by the first byte of the key; \<open>example_private_key\<close>
  is the key it undoes \<open>example_public_key\<close> with.
\<close>

definition interrupt_request :: bytes where
  \<open>interrupt_request = ''{"signum": 2}''\<close>

definition terminate_request :: bytes where
  \<open>terminate_request = ''{"signum": 15}''\<close>

definition shutdown_request :: bytes where
  \<open>shutdown_request = ''{"shutdown": true}''\<close>

definition malformed_request :: bytes where
  \<open>malformed_request = ''{"signum": ''\<close>

definition example_plaintext :: bytes where
  \<open>example_plaintext = ''{"shell_port": 8001}''\<close>

definition example_public_key :: str where
  "example_public_key = ''QUJD''"

definition example_private_key :: bytes where
  "example_private_key = ''ABC''"

definition example_envelope :: json where
  "example_envelope =
     envelope ''rKysrKysrKysrKysrKysrA=='' ''5o3e09DX18rb2t3fjaWLo5ubnOh3d3d3d3d3d3d3d3c=''"

definition example_envelope_text :: str where
  \<open>example_envelope_text =
     ''{"version": 1, "key": "rKysrKysrKysrKysrKysrA==", "conn_info": "5o3e09DX18rb2t3fjaWLo5ubnOh3d3d3d3d3d3d3d3c="}''\<close>

fun digits_to_nat :: "nat \<Rightarrow> str \<Rightarrow> nat option" where
  "digits_to_nat acc [] = Some acc"
| "digits_to_nat acc (c # cs) =
     (let d = (of_char c :: nat)
      in if 48 \<le> d \<and> d \<le> 57 then digits_to_nat (10 * acc + (d - 48)) cs else None)"

definition decimal_int :: "str \<Rightarrow> int option" where
  "decimal_int s =
     (case s of
        [] \<Rightarrow> None
      | c # cs \<Rightarrow>
         (if c = CHR ''-''
          then (if cs = [] then None else map_option (\<lambda>n. - int n) (digits_to_nat 0 cs))
          else map_option int (digits_to_nat 0 s)))"

definition example_loads :: "str \<Rightarrow> json option" where
  \<open>example_loads =
     map_of
      [(''{"signum": 2}'', JObject [(''signum'', JInt 2)]),
       (''{"signum": 15}'', JObject [(''signum'', JInt 15)]),
       (''{"shutdown": true}'', JObject [(''shutdown'', JBool True)]),
       (''{}'', JObject []),
       (example_envelope_text, example_envelope)]\<close>

definition example_connection_file :: "(str \<times> json) list" where
  "example_connection_file =
     [(''shell_port'', JInt 8001), (''iopub_port'', JInt 8002), (''stdin_port'', JInt 8003),
      (''control_port'', JInt 8004), (''hb_port'', JInt 8005), (''ip'', JString ''0.0.0.0''),
      (''key'', JString ''6f1d''), (''transport'', JString ''tcp'')]"

definition shift_bytes :: "nat \<Rightarrow> bytes \<Rightarrow> bytes" where
  "shift_bytes n data = map (\<lambda>c. char_of ((of_char c :: nat) + n)) data"

definition shift_encrypt :: "bytes \<Rightarrow> bytes \<Rightarrow> bytes" where
  "shift_encrypt key data = shift_bytes (case key of [] \<Rightarrow> 0 | k # ks \<Rightarrow> of_char k) data"

definition shift_decrypt :: "bytes \<Rightarrow> bytes \<Rightarrow> bytes" where
  "shift_decrypt key data =
     shift_bytes (case key of [] \<Rightarrow> 0 | k # ks \<Rightarrow> 256 - of_char k) data"

definition example_env :: env where
  \<open>example_env =
     \<lparr>max_port_range_retries = 5,
      SIGUSR2 = 12,
      randint_src = (\<lambda>t. 0),
      port_free = (\<lambda>t p. True),
      ephemeral = (\<lambda>t. 49152),
      getpid = 4242,
      getpgid = (\<lambda>pid. 4200),
      load_json_file =
        (\<lambda>path. if path = ''conn.json'' then Inr (JObject example_connection_file)
                else Inl OSError),
      connect_result = (\<lambda>t host port. None),
      send_result = (\<lambda>t payload. None),
      kill_result = (\<lambda>t pid signum. if pid = 4242 then None else Some ProcessLookupError),
      int_of_str = decimal_int,
      decode_utf8 = Some,
      json_loads = example_loads,
      json_dumps = (\<lambda>j. if j = example_envelope then example_envelope_text else ''{}''),
      get_random_bytes = (\<lambda>t n. replicate n (CHR ''k'')),
      aes_ecb_encrypt = shift_encrypt,
      b64decode = b64decode_strict,
      rsa_import_key = Some,
      pkcs1_v1_5_encrypt = (\<lambda>t key message. Inr (shift_encrypt key message))\<rparr>\<close>

text \<open>A world in which nothing has happened yet and the given connections will arrive.\<close>

definition fresh_world :: "accept_result list \<Rightarrow> world" where
  "fresh_world conns = \<lparr>tick = 0, bound = [], incoming = conns, trace = []\<rparr>"

text \<open>A world in which this process already holds sockets on the given ports; the same
  environment with every port taken by others, and with random draws that differ from
  call to call; and a supervised process that does not exist.\<close>

definition holding_world :: "int list \<Rightarrow> world" where
  "holding_world ports = \<lparr>tick = 0, bound = ports, incoming = [], trace = []\<rparr>"

definition busy_env :: env where
  "busy_env = example_env\<lparr>port_free := (\<lambda>t p. False)\<rparr>"

definition varied_env :: env where
  "varied_env = example_env\<lparr>randint_src := (\<lambda>t. t)\<rparr>"

definition no_such_pid :: int where
  "no_such_pid = 999"

text \<open>The decryption that stands for the RSA one, and a run of the listener in the
  example environment: a handshake with the controller at 10.0.0.5:8877, then at most
  ten iterations of the loop over the given connections.\<close>

definition example_rsa_decrypt :: "bytes \<Rightarrow> bytes \<Rightarrow> bytes option" where
  "example_rsa_decrypt private_key c = Some (shift_decrypt private_key c)"

definition example_run :: "int \<Rightarrow> str option \<Rightarrow> accept_result list \<Rightarrow> outcome \<times> world" where
  "example_run parent_pid cluster_type conns =
     server_listener example_env ''conn.json'' ''10.0.0.5:8877'' 8000 8010 ''k-1''
       example_public_key parent_pid cluster_type 10 (fresh_world conns)"

section \<open>Properties of the port allocation\<close>

lemma bind_attempts_tick [simp]: "bind_attempts (w\<lparr>tick := t\<rparr>) = bind_attempts w"
  by (simp add: bind_attempts_def)

lemma sock_bind_Inr:
  assumes "sock_bind env p w = (Inr q, w')"
  shows "q \<notin> set (bound w) \<and> bound w' = bound w @ [q] \<and> (p \<noteq> 0 \<longrightarrow> q = p)
         \<and> bind_attempts w' = bind_attempts w + 1"
  using assms
  by (auto simp: sock_bind_def Let_def emit_def bind_attempts_def split: if_splits)

lemma sock_bind_Inl:
  assumes "sock_bind env p w = (Inl e, w')"
  shows "bound w' = bound w \<and> bind_attempts w' = bind_attempts w + 1"
  using assms
  by (auto simp: sock_bind_def Let_def emit_def bind_attempts_def split: if_splits)

lemma candidate_in_range:
  assumes "get_candidate_port env t lo hi = Inr p" and "lo < hi"
  shows "lo \<le> p \<and> p \<le> hi"
proof -
  have "randint env t lo hi = Inr p"
    using assms by (simp add: get_candidate_port_def Let_def)
  then have p: "p = lo + int (randint_src env t mod nat (hi - lo + 1))"
    using assms(2) by (simp add: randint_def)
  have "randint_src env t mod nat (hi - lo + 1) < nat (hi - lo + 1)"
    using assms(2) by (intro mod_less_divisor) simp
  then show ?thesis using p assms(2) by linarith
qed

lemma candidate_exists:
  assumes "lo \<le> hi"
  shows "\<exists>p. get_candidate_port env t lo hi = Inr p"
  using assms by (cases "hi = lo") (auto simp: get_candidate_port_def randint_def Let_def)

lemma try_bind_Inr:
  assumes "try_bind env lo hi w = (Inr q, w')"
  shows "q \<notin> set (bound w) \<and> bound w' = bound w @ [q]
         \<and> (1 \<le> lo \<and> lo < hi \<longrightarrow> lo \<le> q \<and> q \<le> hi)
         \<and> bind_attempts w' = bind_attempts w + 1"
proof (cases "get_candidate_port env (tick w) lo hi")
  case (Inl e)
  then show ?thesis using assms by (simp add: try_bind_def)
next
  case (Inr p)
  then have sb: "sock_bind env p (w\<lparr>tick := Suc (tick w)\<rparr>) = (Inr q, w')"
    using assms by (simp add: try_bind_def)
  from sock_bind_Inr[OF sb] candidate_in_range[OF Inr]
  show ?thesis by auto
qed

lemma try_bind_Inl:
  assumes "try_bind env lo hi w = (Inl e, w')"
  shows "bound w' = bound w \<and> bind_attempts w' \<le> bind_attempts w + 1"
proof (cases "get_candidate_port env (tick w) lo hi")
  case (Inl e')
  then show ?thesis using assms by (auto simp: try_bind_def)
next
  case (Inr p)
  then have sb: "sock_bind env p (w\<lparr>tick := Suc (tick w)\<rparr>) = (Inl e, w')"
    using assms by (simp add: try_bind_def)
  from sock_bind_Inl[OF sb] show ?thesis by auto
qed

text \<open>With a range that is not empty there is a candidate, so a failure of the body of
  the \<^verbatim>\<open>try\<close> is a failed bind.\<close>

lemma try_bind_Inl_exact:
  assumes "try_bind env lo hi w = (Inl e, w')" and "lo \<le> hi"
  shows "bind_attempts w' = bind_attempts w + 1"
proof -
  obtain p where p: "get_candidate_port env (tick w) lo hi = Inr p"
    using candidate_exists[OF assms(2)] by blast
  then have sb: "sock_bind env p (w\<lparr>tick := Suc (tick w)\<rparr>) = (Inl e, w')"
    using assms(1) by (simp add: try_bind_def)
  from sock_bind_Inl[OF sb] show ?thesis by simp
qed

lemma select_socket_loop_result:
  "select_socket_loop env lo hi retries w = (r, w') \<Longrightarrow>
     (case r of
        Inl e \<Rightarrow> e = RuntimeError lo hi (max_port_range_retries env) \<and> bound w' = bound w
      | Inr q \<Rightarrow> q \<notin> set (bound w) \<and> bound w' = bound w @ [q]
                 \<and> (1 \<le> lo \<and> lo < hi \<longrightarrow> lo \<le> q \<and> q \<le> hi))"
proof (induction env lo hi retries w rule: select_socket_loop.induct)
  case (1 env lo hi retries w)
  obtain r1 w1 where tb: "try_bind env lo hi w = (r1, w1)" by (cases "try_bind env lo hi w")
  show ?case
  proof (cases r1)
    case (Inr q)
    with tb "1.prems" have "r = Inr q" "w' = w1" by simp_all
    with try_bind_Inr[of env lo hi w q w1] tb Inr show ?thesis by simp
  next
    case (Inl e)
    from try_bind_Inl[of env lo hi w e w1] tb Inl have bw: "bound w1 = bound w" by simp
    show ?thesis
    proof (cases "retries + 1 > max_port_range_retries env")
      case True
      with tb Inl "1.prems" show ?thesis using bw by (auto simp: Let_def)
    next
      case False
      with tb Inl "1.prems" have rec: "select_socket_loop env lo hi (retries + 1) w1 = (r, w')"
        by (simp add: Let_def)
      from "1.IH"[OF tb[symmetric] _ refl _ rec] Inl False
      show ?thesis using bw by (auto split: sum.splits)
    qed
  qed
qed

lemma select_socket_loop_attempts:
  "retries \<le> max_port_range_retries env \<Longrightarrow>
   bind_attempts (snd (select_socket_loop env lo hi retries w))
     \<le> bind_attempts w + nat (max_port_range_retries env - retries) + 1"
proof (induction env lo hi retries w rule: select_socket_loop.induct)
  case (1 env lo hi retries w)
  obtain r1 w1 where tb: "try_bind env lo hi w = (r1, w1)" by (cases "try_bind env lo hi w")
  show ?case
  proof (cases r1)
    case (Inr q)
    with try_bind_Inr[of env lo hi w q w1] tb show ?thesis by simp
  next
    case (Inl e)
    from try_bind_Inl[of env lo hi w e w1] tb Inl
    have a1: "bind_attempts w1 \<le> bind_attempts w + 1" by simp
    show ?thesis
    proof (cases "retries + 1 > max_port_range_retries env")
      case True
      with tb Inl a1 show ?thesis by (simp add: Let_def)
    next
      case False
      then have le: "retries + 1 \<le> max_port_range_retries env" by simp
      from "1.IH"[OF tb[symmetric] _ refl _ le] Inl False
      have "bind_attempts (snd (select_socket_loop env lo hi (retries + 1) w1))
              \<le> bind_attempts w1 + nat (max_port_range_retries env - (retries + 1)) + 1"
        by simp
      moreover have "nat (max_port_range_retries env - (retries + 1)) + 1
                       = nat (max_port_range_retries env - retries)"
        using le by linarith
      ultimately show ?thesis using tb Inl False a1 by (simp add: Let_def)
    qed
  qed
qed

lemma select_socket_loop_fail_exact:
  "retries \<le> max_port_range_retries env \<Longrightarrow>
   select_socket_loop env lo hi retries w = (Inl e, w') \<Longrightarrow> lo \<le> hi \<Longrightarrow>
   bind_attempts w' = bind_attempts w + nat (max_port_range_retries env - retries) + 1"
proof (induction env lo hi retries w rule: select_socket_loop.induct)
  case (1 env lo hi retries w)
  obtain r1 w1 where tb: "try_bind env lo hi w = (r1, w1)" by (cases "try_bind env lo hi w")
  show ?case
  proof (cases r1)
    case (Inr q)
    with tb "1.prems"(2) show ?thesis by simp
  next
    case (Inl e1)
    from try_bind_Inl_exact[of env lo hi w e1 w1] tb Inl "1.prems"(3)
    have a1: "bind_attempts w1 = bind_attempts w + 1" by simp
    show ?thesis
    proof (cases "retries + 1 > max_port_range_retries env")
      case True
      with "1.prems"(1) have "retries = max_port_range_retries env" by simp
      moreover from True tb Inl "1.prems"(2) have "w' = w1" by (simp add: Let_def)
      ultimately show ?thesis using a1 by simp
    next
      case False
      then have le: "retries + 1 \<le> max_port_range_retries env" by simp
      from False tb Inl "1.prems"(2)
      have rec: "select_socket_loop env lo hi (retries + 1) w1 = (Inl e, w')"
        by (simp add: Let_def)
      from "1.IH"[OF tb[symmetric] _ refl _ le rec "1.prems"(3)] Inl False
      have "bind_attempts w' = bind_attempts w1 + nat (max_port_range_retries env - (retries + 1)) + 1"
        by simp
      moreover have "nat (max_port_range_retries env - (retries + 1)) + 1
                       = nat (max_port_range_retries env - retries)"
        using le by linarith
      ultimately show ?thesis using a1 by simp
    qed
  qed
qed

lemma select_ports_loop_result:
  "select_ports_loop env n lo hi ports sockets w = (r, w') \<Longrightarrow>
   distinct ports \<Longrightarrow> set ports \<subseteq> set (bound w) \<Longrightarrow>
   (1 \<le> lo \<and> lo < hi \<longrightarrow> (\<forall>p\<in>set ports. lo \<le> p \<and> p \<le> hi)) \<Longrightarrow>
   (case r of
      Inl e \<Rightarrow> e = RuntimeError lo hi (max_port_range_retries env)
    | Inr (ports', sockets') \<Rightarrow>
        length ports' = length ports + n \<and> distinct ports'
        \<and> (1 \<le> lo \<and> lo < hi \<longrightarrow> (\<forall>p\<in>set ports'. lo \<le> p \<and> p \<le> hi)))"
proof (induction n arbitrary: ports sockets w)
  case 0
  then show ?case by auto
next
  case (Suc n)
  obtain r1 w1 where ss: "select_socket_loop env lo hi 0 w = (r1, w1)"
    by (cases "select_socket_loop env lo hi 0 w")
  note res = select_socket_loop_result[OF ss]
  show ?case
  proof (cases r1)
    case (Inl e)
    with ss Suc.prems(1) res show ?thesis by (auto simp: select_socket_def)
  next
    case (Inr q)
    with ss Suc.prems(1) have rec:
      "select_ports_loop env n lo hi (ports @ [q]) (sockets @ [q]) w1 = (r, w')"
      by (simp add: select_socket_def)
    from res Inr have q: "q \<notin> set (bound w)" "bound w1 = bound w @ [q]"
      "1 \<le> lo \<and> lo < hi \<longrightarrow> lo \<le> q \<and> q \<le> hi" by simp_all
    have d: "distinct (ports @ [q])" using Suc.prems(2,3) q(1) by auto
    have s: "set (ports @ [q]) \<subseteq> set (bound w1)" using Suc.prems(3) q(2) by auto
    have rg: "1 \<le> lo \<and> lo < hi \<longrightarrow> (\<forall>p\<in>set (ports @ [q]). lo \<le> p \<and> p \<le> hi)"
      using Suc.prems(4) q(3) by auto
    from Suc.IH[OF rec d s rg] show ?thesis by (auto split: sum.splits prod.splits)
  qed
qed

text \<open>
  C5, as amended. For every count and every port range with \<open>1 \<le> lower < upper\<close>,
  \<^verbatim>\<open>_select_ports\<close> either raises the RuntimeError of \<^verbatim>\<open>_select_socket\<close> that names the
  range, or returns exactly \<open>count\<close> ports that are pairwise distinct and lie in
  \<open>[lower, upper]\<close>.
\<close>

theorem select_ports_distinct_in_range:
  assumes "1 \<le> lower_port" and "lower_port < upper_port"
  shows "case fst (select_ports env count lower_port upper_port w) of
           Inl e \<Rightarrow> e = RuntimeError lower_port upper_port (max_port_range_retries env)
         | Inr ports \<Rightarrow>
             length ports = nat count \<and> distinct ports
             \<and> (\<forall>p\<in>set ports. lower_port \<le> p \<and> p \<le> upper_port)"
proof -
  obtain r w1 where l: "select_ports_loop env (nat count) lower_port upper_port [] [] w = (r, w1)"
    by (cases "select_ports_loop env (nat count) lower_port upper_port [] [] w")
  from select_ports_loop_result[OF l] assms
  show ?thesis using l by (auto simp: select_ports_def split: sum.splits prod.splits)
qed

theorem select_ports_distinct_in_range_witness:
  "(1::int) \<le> 8000 \<and> (8000::int) < 8010
   \<and> fst (select_ports varied_env 5 8000 8010 (fresh_world []))
       = Inr [8000, 8002, 8004, 8006, 8008]
   \<and> (case fst (select_ports varied_env 5 8000 8010 (fresh_world [])) of
         Inl e \<Rightarrow> e = RuntimeError 8000 8010 5
       | Inr ports \<Rightarrow>
           length ports = 5 \<and> distinct ports \<and> (\<forall>p\<in>set ports. 8000 \<le> p \<and> p \<le> 8010))"
proof -
  have h1: "(1::int) \<le> 8000" and h2: "(8000::int) < 8010" by simp_all
  have run: "fst (select_ports varied_env 5 8000 8010 (fresh_world []))
               = Inr [8000, 8002, 8004, 8006, 8008]"
    by code_simp
  have m: "max_port_range_retries varied_env = 5"
    by (simp add: varied_env_def example_env_def)
  from select_ports_distinct_in_range[OF h1 h2, of varied_env 5 "fresh_world []"]
  show ?thesis using run m by simp
qed

text \<open>
  C5 as stated fails. With \<open>lower = upper = 8000\<close> and \<open>count = 1\<close> the candidate is
  port 0, and the port the operating system picks, here 49152, is returned: it is outside
  \<open>[8000, 8000]\<close>. The same happens in the range \<open>[0, 1]\<close> when the random candidate
  is 0. With the range \<open>[8000, 8001]\<close>, both ports free and \<open>count = 2\<close>, a random
  source that keeps drawing 8000 makes the second socket fail all its six binds, and no
  ports are returned.
\<close>

theorem select_ports_range_counterexample:
  "(1::int) \<le> 8000 - 8000 + 1
   \<and> fst (select_ports example_env 1 8000 8000 (fresh_world [])) = Inr [49152]
   \<and> \<not> ((8000::int) \<le> 49152 \<and> (49152::int) \<le> 8000)
   \<and> (1::int) \<le> 1 - 0 + 1
   \<and> fst (select_ports example_env 1 0 1 (fresh_world [])) = Inr [49152]
   \<and> \<not> ((0::int) \<le> 49152 \<and> (49152::int) \<le> 1)
   \<and> (2::int) \<le> 8001 - 8000 + 1
   \<and> fst (select_ports example_env 2 8000 8001 (fresh_world []))
       = Inl (RuntimeError 8000 8001 5)"
proof -
  have a: "fst (select_ports example_env 1 8000 8000 (fresh_world [])) = Inr [49152]"
    by code_simp
  have z: "fst (select_ports example_env 1 0 1 (fresh_world [])) = Inr [49152]"
    by code_simp
  have b: "fst (select_ports example_env 2 8000 8001 (fresh_world []))
             = Inl (RuntimeError 8000 8001 5)"
    by code_simp
  show ?thesis using a z b by simp
qed

text \<open>
  C6. With a retry bound that is not negative, \<^verbatim>\<open>_select_socket\<close> never attempts more
  than \<open>max_port_range_retries + 1\<close> binds. A run in which no bind succeeds, so that
  no port is added to the ports this process holds, raises; and every run that raises,
  whatever made its binds fail (ports taken by other processes, ports held by this
  process's own sockets, ports refused), raises the RuntimeError that carries the range
  and the retry bound, has bound nothing, and, the range not being empty, has attempted
  exactly \<open>max_port_range_retries + 1\<close> binds by then.
\<close>

theorem select_socket_exhausted:
  assumes "0 \<le> max_port_range_retries env"
  shows "bind_attempts (snd (select_socket env lower_port upper_port w))
           \<le> bind_attempts w + (nat (max_port_range_retries env) + 1)
         \<and> (bound (snd (select_socket env lower_port upper_port w)) = bound w
              \<longrightarrow> fst (select_socket env lower_port upper_port w)
                    = Inl (RuntimeError lower_port upper_port (max_port_range_retries env)))
         \<and> (\<forall>e. fst (select_socket env lower_port upper_port w) = Inl e
              \<longrightarrow> e = RuntimeError lower_port upper_port (max_port_range_retries env)
                  \<and> bound (snd (select_socket env lower_port upper_port w)) = bound w
                  \<and> (lower_port \<le> upper_port
                       \<longrightarrow> bind_attempts (snd (select_socket env lower_port upper_port w))
                            = bind_attempts w + (nat (max_port_range_retries env) + 1)))"
proof -
  obtain r w' where run: "select_socket_loop env lower_port upper_port 0 w = (r, w')"
    by (cases "select_socket_loop env lower_port upper_port 0 w")
  note res = select_socket_loop_result[OF run]
  have le: "bind_attempts w' \<le> bind_attempts w + (nat (max_port_range_retries env) + 1)"
    using select_socket_loop_attempts[OF assms, of lower_port upper_port w] run by simp
  have none: "r = Inl (RuntimeError lower_port upper_port (max_port_range_retries env))"
    if "bound w' = bound w"
    using res that by (cases r) simp_all
  have raised: "e = RuntimeError lower_port upper_port (max_port_range_retries env)
                \<and> bound w' = bound w
                \<and> (lower_port \<le> upper_port
                     \<longrightarrow> bind_attempts w'
                          = bind_attempts w + (nat (max_port_range_retries env) + 1))"
    if "r = Inl e" for e
  proof -
    have "bind_attempts w' = bind_attempts w + nat (max_port_range_retries env - 0) + 1"
      if "lower_port \<le> upper_port"
      using select_socket_loop_fail_exact[OF assms run[unfolded \<open>r = Inl e\<close>] that] .
    with res \<open>r = Inl e\<close> show ?thesis by simp
  qed
  have ss: "select_socket env lower_port upper_port w = (r, w')"
    using run by (simp only: select_socket_def)
  have f: "fst (select_socket env lower_port upper_port w) = r"
    and s: "snd (select_socket env lower_port upper_port w) = w'"
    by (simp_all only: ss fst_conv snd_conv)
  show ?thesis unfolding f s using le none raised by blast
qed

theorem select_socket_exhausted_witness:
  "0 \<le> max_port_range_retries busy_env
   \<and> trace (snd (select_socket busy_env 8000 8010 (fresh_world [])))
       = [Bind 8000, Bind 8000, Bind 8000, Bind 8000, Bind 8000, Bind 8000]
   \<and> fst (select_socket busy_env 8000 8010 (fresh_world [])) = Inl (RuntimeError 8000 8010 5)
   \<and> bind_attempts (snd (select_socket busy_env 8000 8010 (fresh_world []))) = 6
   \<and> 0 \<le> max_port_range_retries example_env
   \<and> trace (snd (select_socket example_env 8000 8001 (holding_world [8000])))
       = [Bind 8000, Bind 8000, Bind 8000, Bind 8000, Bind 8000, Bind 8000]
   \<and> fst (select_socket example_env 8000 8001 (holding_world [8000]))
       = Inl (RuntimeError 8000 8001 5)
   \<and> bind_attempts (snd (select_socket example_env 8000 8001 (holding_world [8000]))) = 6"
proof -
  have h1: "0 \<le> max_port_range_retries busy_env" by (simp add: busy_env_def example_env_def)
  have h2: "0 \<le> max_port_range_retries example_env" by (simp add: example_env_def)
  have m1: "max_port_range_retries busy_env = 5" by (simp add: busy_env_def example_env_def)
  have m2: "max_port_range_retries example_env = 5" by (simp add: example_env_def)
  have a1: "bind_attempts (fresh_world []) + (nat 5 + 1) = 6"
    by (simp add: bind_attempts_def fresh_world_def)
  have a2: "bind_attempts (holding_world [8000]) + (nat 5 + 1) = 6"
    by (simp add: bind_attempts_def holding_world_def)
  have b1: "bound (fresh_world []) = []" by (simp add: fresh_world_def)
  have b2: "bound (holding_world [8000]) = [8000]" by (simp add: holding_world_def)
  have run1: "snd (select_socket busy_env 8000 8010 (fresh_world []))
                = \<lparr>tick = 12, bound = [], incoming = [],
                   trace = [Bind 8000, Bind 8000, Bind 8000, Bind 8000, Bind 8000, Bind 8000]\<rparr>"
    by code_simp
  have run2: "snd (select_socket example_env 8000 8001 (holding_world [8000]))
                = \<lparr>tick = 12, bound = [8000], incoming = [],
                   trace = [Bind 8000, Bind 8000, Bind 8000, Bind 8000, Bind 8000, Bind 8000]\<rparr>"
    by code_simp
  have t1: "trace (snd (select_socket busy_env 8000 8010 (fresh_world [])))
              = [Bind 8000, Bind 8000, Bind 8000, Bind 8000, Bind 8000, Bind 8000]"
    by (simp only: run1 world.simps)
  have t2: "trace (snd (select_socket example_env 8000 8001 (holding_world [8000])))
              = [Bind 8000, Bind 8000, Bind 8000, Bind 8000, Bind 8000, Bind 8000]"
    by (simp only: run2 world.simps)
  have n1: "bound (snd (select_socket busy_env 8000 8010 (fresh_world [])))
              = bound (fresh_world [])"
    by (simp only: run1 world.simps b1)
  have n2: "bound (snd (select_socket example_env 8000 8001 (holding_world [8000])))
              = bound (holding_world [8000])"
    by (simp only: run2 world.simps b2)
  note th1 = select_socket_exhausted[OF h1, of 8000 8010 "fresh_world []", unfolded m1]
  note th2 = select_socket_exhausted[OF h2, of 8000 8001 "holding_world [8000]", unfolded m2]
  have e1: "fst (select_socket busy_env 8000 8010 (fresh_world []))
              = Inl (RuntimeError 8000 8010 5)"
    using th1 n1 by blast
  have e2: "fst (select_socket example_env 8000 8001 (holding_world [8000]))
              = Inl (RuntimeError 8000 8001 5)"
    using th2 n2 by blast
  have r1: "(8000::int) \<le> 8010" and r2: "(8000::int) \<le> 8001" by simp_all
  have "bind_attempts (snd (select_socket busy_env 8000 8010 (fresh_world [])))
          = bind_attempts (fresh_world []) + (nat 5 + 1)"
    using th1 e1 r1 by blast
  then have c1: "bind_attempts (snd (select_socket busy_env 8000 8010 (fresh_world []))) = 6"
    by (simp only: a1)
  have "bind_attempts (snd (select_socket example_env 8000 8001 (holding_world [8000])))
          = bind_attempts (holding_world [8000]) + (nat 5 + 1)"
    using th2 e2 r2 by blast
  then have c2:
    "bind_attempts (snd (select_socket example_env 8000 8001 (holding_world [8000]))) = 6"
    by (simp only: a2)
  show ?thesis by (intro conjI) (rule h1 t1 e1 c1 h2 t2 e2 c2)+
qed

section \<open>Properties of the encrypted payload\<close>

lemma b64val_b64char: "n < 64 \<Longrightarrow> b64val (b64char n) = Some n"
  by (auto simp: b64val_def b64char_def Let_def)

lemma b64char_not_pad: "n < 64 \<Longrightarrow> b64char n \<noteq> CHR ''=''"
proof
  assume n: "n < 64" and eq: "b64char n = CHR ''=''"
  have "b64val (CHR ''='') = None" by (simp add: b64val_def)
  with b64val_b64char[OF n] eq show False by simp
qed

lemma of_char_less_256: "(of_char c :: nat) < 256"
  by (metis of_char_mod_256 mod_less_divisor zero_less_numeral)

lemma sextet_bounds:
  fixes x y z :: nat
  assumes "x < 256" "y < 256" "z < 256"
  shows "x div 4 < 64" "(x mod 4) * 16 < 64" "(x mod 4) * 16 + y div 16 < 64"
        "(y mod 16) * 4 < 64" "(y mod 16) * 4 + z div 64 < 64" "z mod 64 < 64"
  using assms by simp_all

lemma octet_rebuild:
  fixes x y z :: nat
  assumes "x < 256" "y < 256" "z < 256"
  shows "x div 4 * 4 + ((x mod 4) * 16) div 16 = x"
        "x div 4 * 4 + ((x mod 4) * 16 + y div 16) div 16 = x"
        "(((x mod 4) * 16 + y div 16) mod 16) * 16 + ((y mod 16) * 4) div 4 = y"
        "(((x mod 4) * 16 + y div 16) mod 16) * 16 + ((y mod 16) * 4 + z div 64) div 4 = y"
        "(((y mod 16) * 4 + z div 64) mod 4) * 64 + z mod 64 = z"
  using assms by simp_all

lemma b64_round_trip: "b64decode_strict (b64encode bs) = Some bs"
proof (induction bs rule: b64encode.induct)
  case 1
  show ?case by simp
next
  case (2 a)
  define x where "x = (of_char a :: nat)"
  have x: "x < 256" by (simp add: x_def of_char_less_256)
  define v1 where "v1 = x div 4"
  define v2 where "v2 = (x mod 4) * 16"
  have bounds: "v1 < 64" "v2 < 64"
    unfolding v1_def v2_def using sextet_bounds[OF x x x] by simp_all
  have rebuild: "v1 * 4 + v2 div 16 = x"
    unfolding v1_def v2_def using octet_rebuild[OF x x x] by simp
  have enc: "b64encode [a] = [b64char v1, b64char v2, CHR ''='', CHR ''='']"
    by (simp add: Let_def x_def v1_def v2_def)
  have "char_of x = a" by (simp add: x_def)
  then show ?case
    unfolding enc using bounds by (simp add: b64val_b64char rebuild)
next
  case (3 a b)
  define x where "x = (of_char a :: nat)"
  define y where "y = (of_char b :: nat)"
  have x: "x < 256" and y: "y < 256" by (simp_all add: x_def y_def of_char_less_256)
  define v1 where "v1 = x div 4"
  define v2 where "v2 = (x mod 4) * 16 + y div 16"
  define v3 where "v3 = (y mod 16) * 4"
  have bounds: "v1 < 64" "v2 < 64" "v3 < 64"
    unfolding v1_def v2_def v3_def using sextet_bounds[OF x y y] by simp_all
  have rebuild: "v1 * 4 + v2 div 16 = x" "(v2 mod 16) * 16 + v3 div 4 = y"
    unfolding v1_def v2_def v3_def using octet_rebuild[OF x y y] by simp_all
  have enc: "b64encode [a, b] = [b64char v1, b64char v2, b64char v3, CHR ''='']"
    by (simp add: Let_def x_def y_def v1_def v2_def v3_def)
  have "char_of x = a" "char_of y = b" by (simp_all add: x_def y_def)
  then show ?case
    unfolding enc using bounds b64char_not_pad[OF bounds(3)]
    by (simp add: b64val_b64char rebuild)
next
  case (4 a b c rest)
  define x where "x = (of_char a :: nat)"
  define y where "y = (of_char b :: nat)"
  define z where "z = (of_char c :: nat)"
  have x: "x < 256" and y: "y < 256" and z: "z < 256"
    by (simp_all add: x_def y_def z_def of_char_less_256)
  define v1 where "v1 = x div 4"
  define v2 where "v2 = (x mod 4) * 16 + y div 16"
  define v3 where "v3 = (y mod 16) * 4 + z div 64"
  define v4 where "v4 = z mod 64"
  have bounds: "v1 < 64" "v2 < 64" "v3 < 64" "v4 < 64"
    unfolding v1_def v2_def v3_def v4_def using sextet_bounds[OF x y z] by simp_all
  have rebuild: "v1 * 4 + v2 div 16 = x" "(v2 mod 16) * 16 + v3 div 4 = y"
      "(v3 mod 4) * 64 + v4 = z"
    unfolding v1_def v2_def v3_def v4_def using octet_rebuild[OF x y z] by simp_all
  have enc: "b64encode (a # b # c # rest)
               = b64char v1 # b64char v2 # b64char v3 # b64char v4 # b64encode rest"
    by (simp add: Let_def x_def y_def z_def v1_def v2_def v3_def v4_def)
  have "char_of x = a" "char_of y = b" "char_of z = c" by (simp_all add: x_def y_def z_def)
  then show ?case
    unfolding enc
    using bounds b64char_not_pad[OF bounds(3)] b64char_not_pad[OF bounds(4)] "4.IH"
    by (simp add: b64val_b64char rebuild)
qed

lemma pad16_length: "length (pad16 data) mod 16 = 0"
proof -
  have "(length data + (16 - length data mod 16)) mod 16 = 0"
    by presburger
  then show ?thesis by (simp add: pad16_def Let_def)
qed

lemma unpad16_pad16: "unpad16 (pad16 data) = Some data"
proof -
  define n where "n = 16 - length data mod 16"
  have n: "1 \<le> n" "n \<le> 16" by (simp_all add: n_def)
  have p: "pad16 data = data @ replicate n (char_of n)" by (simp add: pad16_def n_def Let_def)
  have ne: "pad16 data \<noteq> []" using n p by auto
  have l: "last (pad16 data) = char_of n" using n p by simp
  have oc: "(of_char (char_of n :: char) :: nat) = n" using n by simp
  have len: "length (pad16 data) - n = length data" using p by simp
  show ?thesis
    unfolding unpad16_def using ne pad16_length[of data] n
    by (simp add: l oc Let_def len) (simp add: p)
qed

text \<open>
  C7. Let the private key match the public key: the RSA decryption with it undoes the
  encryption of a 16-byte message under the imported public key, whatever the random
  padding. Let the AES decryption undo the AES encryption of whole blocks under a
  16-byte key, and let the controller read back the JSON text of the payload as the
  payload. Then for every plaintext, of any length, \<^verbatim>\<open>_encrypt\<close> returns a payload, and
  decrypting it gives exactly the plaintext.
\<close>
theorem encrypt_decrypt_round_trip:
  assumes key: "b64decode env public_key = Some der"
               "rsa_import_key env der = Some imported_public_key"
      and rnd: "\<forall>t. length (get_random_bytes env t 16) = 16"
      and rsa: "\<forall>t m. length m = 16 \<longrightarrow>
                  (\<exists>c. pkcs1_v1_5_encrypt env t imported_public_key m = Inr c
                       \<and> rsa_decrypt private_key c = Some m)"
      and aes: "\<forall>k x. length k = 16 \<and> length x mod 16 = 0 \<longrightarrow>
                  aes_ecb_decrypt k (aes_ecb_encrypt env k x) = x"
      and js: "\<forall>j. fst (encrypt_payload env plaintext public_key w) = Inr j
                 \<longrightarrow> json_round_trip env j"
  shows "\<exists>payload. fst (encrypt env plaintext public_key w) = Inr payload
           \<and> decrypt env rsa_decrypt aes_ecb_decrypt private_key payload = Some plaintext"
proof -
  define aes_key where "aes_key = get_random_bytes env (tick w) 16"
  define ci where "ci = aes_ecb_encrypt env aes_key (pad16 plaintext)"
  have kl: "length aes_key = 16" using rnd by (simp add: aes_key_def)
  obtain c where c: "pkcs1_v1_5_encrypt env (Suc (tick w)) imported_public_key aes_key = Inr c"
      and unwrap: "rsa_decrypt private_key c = Some aes_key"
    using rsa kl by blast
  have ep: "fst (encrypt_payload env plaintext public_key w)
              = Inr (envelope (b64encode c) (b64encode ci))"
    using key c by (simp add: encrypt_payload_def Let_def aes_key_def ci_def)
  then have enc: "fst (encrypt env plaintext public_key w)
              = Inr (b64encode (json_dumps env (envelope (b64encode c) (b64encode ci))))"
    by (cases "encrypt_payload env plaintext public_key w") (simp add: encrypt_def)
  from js ep have "json_round_trip env (envelope (b64encode c) (b64encode ci))" by simp
  then obtain s where s: "decode_utf8 env (json_dumps env (envelope (b64encode c) (b64encode ci))) = Some s"
      and l: "json_loads env s = Some (envelope (b64encode c) (b64encode ci))"
    by (auto simp: json_round_trip_def split: option.splits)
  have dec_aes: "aes_ecb_decrypt aes_key ci = pad16 plaintext"
    using aes kl pad16_length[of plaintext] by (simp add: ci_def)
  have "decrypt env rsa_decrypt aes_ecb_decrypt private_key
          (b64encode (json_dumps env (envelope (b64encode c) (b64encode ci)))) = Some plaintext"
    by (simp add: decrypt_def b64_round_trip s l)
       (simp add: envelope_def b64_round_trip unwrap dec_aes unpad16_pad16)
  with enc show ?thesis by blast
qed

text \<open>The stand-in cipher of the example environment is undone by its decryption.\<close>

lemma shift_back_mod:
  fixes a n :: nat
  assumes "n \<le> 256"
  shows "((a + n) mod 256 + (256 - n)) mod 256 = a mod 256"
proof -
  have "((a + n) mod 256 + (256 - n)) mod 256 = ((a + n) + (256 - n)) mod 256"
    by (rule mod_add_left_eq)
  also have "(a + n) + (256 - n) = a + 256" using assms by simp
  also have "(a + 256) mod 256 = a mod 256" by simp
  finally show ?thesis .
qed

lemma shift_back:
  assumes "n \<le> 256"
  shows "shift_bytes (256 - n) (shift_bytes n data) = data"
proof -
  have "char_of ((of_char (char_of ((of_char c :: nat) + n) :: char) :: nat) + (256 - n)) = c"
    for c :: char
  proof -
    have "char_of ((((of_char c :: nat) + n) mod 256 + (256 - n)) mod 256)
            = (char_of ((of_char c :: nat) mod 256) :: char)"
      by (simp only: shift_back_mod[OF assms])
    then show ?thesis
      by (simp only: char_of_mod_256 of_char_of char_of_char of_char_mod_256)
  qed
  then show ?thesis by (simp add: shift_bytes_def o_def del: of_char_of)
qed

lemma shift_decrypt_encrypt: "shift_decrypt key (shift_encrypt key data) = data"
proof (cases key)
  case Nil
  then show ?thesis using shift_back[of 0 data]
    by (simp add: shift_decrypt_def shift_encrypt_def shift_bytes_def o_def)
next
  case (Cons k ks)
  have "(of_char k :: nat) \<le> 256"
    by (metis of_char_mod_256 mod_less_divisor zero_less_numeral less_imp_le)
  from shift_back[OF this, of data] show ?thesis
    using Cons by (simp add: shift_decrypt_def shift_encrypt_def)
qed

theorem encrypt_decrypt_round_trip_witness:
  "length example_plaintext = 20
   \<and> b64decode example_env example_public_key = Some example_private_key
   \<and> fst (encrypt_payload example_env example_plaintext example_public_key (fresh_world []))
       = Inr example_envelope
   \<and> json_round_trip example_env example_envelope
   \<and> (\<exists>payload.
         fst (encrypt example_env example_plaintext example_public_key (fresh_world []))
           = Inr payload
         \<and> decrypt example_env example_rsa_decrypt shift_decrypt example_private_key payload
             = Some example_plaintext)"
proof -
  have len: "length example_plaintext = 20" by (simp add: example_plaintext_def)
  have key: "b64decode example_env example_public_key = Some example_private_key"
    by code_simp
  have imp: "rsa_import_key example_env example_private_key = Some example_private_key"
    by (simp add: example_env_def)
  have rnd: "\<forall>t. length (get_random_bytes example_env t 16) = 16"
    by (simp add: example_env_def)
  have rsa: "\<forall>t m. length m = 16 \<longrightarrow>
               (\<exists>c. pkcs1_v1_5_encrypt example_env t example_private_key m = Inr c
                    \<and> example_rsa_decrypt example_private_key c = Some m)"
    by (simp add: example_env_def example_rsa_decrypt_def shift_decrypt_encrypt)
  have aes: "\<forall>k x. length k = 16 \<and> length x mod 16 = 0 \<longrightarrow>
               shift_decrypt k (aes_ecb_encrypt example_env k x) = x"
    by (simp add: example_env_def shift_decrypt_encrypt)
  have ep: "fst (encrypt_payload example_env example_plaintext example_public_key (fresh_world []))
              = Inr example_envelope"
    by code_simp
  have rt: "json_round_trip example_env example_envelope"
    by code_simp
  have js: "\<forall>j. fst (encrypt_payload example_env example_plaintext example_public_key
                       (fresh_world [])) = Inr j \<longrightarrow> json_round_trip example_env j"
    using ep rt by simp
  from encrypt_decrypt_round_trip[where rsa_decrypt = example_rsa_decrypt
         and aes_ecb_decrypt = shift_decrypt and private_key = example_private_key,
         OF key imp rnd rsa aes js]
  show ?thesis using len key ep rt by simp
qed

section \<open>Properties of the handshake\<close>

lemma encrypt_trace:
  assumes "encrypt env data public_key w = (r, w')"
  shows "trace w' = trace w \<and> bound w' = bound w \<and> incoming w' = incoming w"
  using assms
  by (auto simp: encrypt_def encrypt_payload_def Let_def split: option.splits sum.splits prod.splits)

lemma push_payload_connects:
  "\<exists>evs. trace (snd (push_payload env host port j public_key w)) = trace w @ Connect host port # evs"
proof (cases "connect_result env (tick w) host port")
  case (Some e)
  then show ?thesis by (simp add: push_payload_def Let_def emit_def)
next
  case None
  obtain r w2 where e: "encrypt env (json_dumps env j) public_key (emit (Connect host port) w) = (r, w2)"
    by (cases "encrypt env (json_dumps env j) public_key (emit (Connect host port) w)")
  from encrypt_trace[OF e] have t: "trace w2 = trace w @ [Connect host port]"
    by (simp add: emit_def)
  show ?thesis
    using None e t
    by (cases r) (auto simp: push_payload_def Let_def emit_def split: option.splits)
qed

lemma push_payload_sends:
  assumes "connect_result env (tick w) host port = None"
      and "encrypt env (json_dumps env j) public_key (emit (Connect host port) w) = (Inr payload, w2)"
      and "send_result env (tick w2) payload = None"
  shows "fst (push_payload env host port j public_key w) = Inr ()
       \<and> trace (snd (push_payload env host port j public_key w))
           = trace w @ [Connect host port, Send payload, ClosePush]"
  using assms encrypt_trace[OF assms(2)]
  by (simp add: push_payload_def Let_def emit_def)

lemma return_connection_info_pull:
  assumes "length (split_on CHR '':'' response_addr) \<noteq> 2
           \<or> int_of_str env (split_on CHR '':'' response_addr ! 1) = None"
  shows "return_connection_info env connection_file response_addr lower_port upper_port
           kernel_id public_key w = (Inr None, w)"
  using assms by (auto simp: return_connection_info_def Let_def)

lemma return_connection_info_push:
  assumes "split_on CHR '':'' response_addr = [host, port_text]"
      and "int_of_str env port_text = Some port"
      and "load_json_file env connection_file = Inr (JObject cf)"
      and "prepare_comm_socket env lower_port upper_port w = (Inr comm_sock, w1)"
  shows "return_connection_info env connection_file response_addr lower_port upper_port
           kernel_id public_key w
         = (case push_payload env host port
                   (JObject (add_ids (getpid env) (getpgid env (getpid env)) comm_sock
                               kernel_id cf))
                   public_key w1 of
              (Inl e, w2) \<Rightarrow> (Inl e, w2)
            | (Inr u, w2) \<Rightarrow> (Inr (Some comm_sock), w2))"
  using assms by (simp add: return_connection_info_def Let_def)

text \<open>
  C4. With a controller address that does not split into exactly two parts at the
  colons, or whose second part is not a number, \<^verbatim>\<open>return_connection_info\<close> returns
  \<^verbatim>\<open>None\<close> without raising and leaves the world as it was: nothing is bound, no
  connection is attempted. With an address \<open>host:port\<close> whose port is a number, once
  the connection file has been read as a dictionary and the control socket is bound,
  the next effect is the connect to that host and port; and when the connect, the
  encryption and the send succeed, the payload is sent, the sending socket is closed and
  the control socket is returned.
\<close>
theorem pull_mode_or_push:
  "(length (split_on CHR '':'' response_addr) \<noteq> 2
      \<or> int_of_str env (split_on CHR '':'' response_addr ! 1) = None
    \<longrightarrow> return_connection_info env connection_file response_addr lower_port upper_port
          kernel_id public_key w = (Inr None, w))
   \<and> (split_on CHR '':'' response_addr = [host, port_text]
      \<and> int_of_str env port_text = Some port
      \<and> load_json_file env connection_file = Inr (JObject cf)
      \<and> prepare_comm_socket env lower_port upper_port w = (Inr comm_sock, w1)
    \<longrightarrow> (\<exists>evs. trace (snd (return_connection_info env connection_file response_addr
                    lower_port upper_port kernel_id public_key w))
                 = trace w1 @ Connect host port # evs)
       \<and> (connect_result env (tick w1) host port = None
          \<and> encrypt env
               (json_dumps env (JObject (add_ids (getpid env) (getpgid env (getpid env))
                                            comm_sock kernel_id cf)))
               public_key (emit (Connect host port) w1) = (Inr payload, w2)
          \<and> send_result env (tick w2) payload = None
        \<longrightarrow> fst (return_connection_info env connection_file response_addr lower_port
                   upper_port kernel_id public_key w) = Inr (Some comm_sock)
           \<and> trace (snd (return_connection_info env connection_file response_addr
                    lower_port upper_port kernel_id public_key w))
               = trace w1 @ [Connect host port, Send payload, ClosePush]))"
proof -
  let ?j = "JObject (add_ids (getpid env) (getpgid env (getpid env)) comm_sock kernel_id cf)"
  let ?rci = "return_connection_info env connection_file response_addr lower_port upper_port
                kernel_id public_key w"
  have pull: "?rci = (Inr None, w)"
    if "length (split_on CHR '':'' response_addr) \<noteq> 2
        \<or> int_of_str env (split_on CHR '':'' response_addr ! 1) = None"
    using that by (rule return_connection_info_pull)
  have connects: "\<exists>evs. trace (snd ?rci) = trace w1 @ Connect host port # evs"
    if wf: "split_on CHR '':'' response_addr = [host, port_text]"
           "int_of_str env port_text = Some port"
           "load_json_file env connection_file = Inr (JObject cf)"
           "prepare_comm_socket env lower_port upper_port w = (Inr comm_sock, w1)"
  proof -
    obtain r w3 where pp: "push_payload env host port ?j public_key w1 = (r, w3)"
      by (cases "push_payload env host port ?j public_key w1")
    have "snd ?rci = w3"
      using return_connection_info_push[OF wf, of kernel_id public_key] pp
      by (cases r) simp_all
    with push_payload_connects[of env host port ?j public_key w1] pp show ?thesis by simp
  qed
  have sends: "fst ?rci = Inr (Some comm_sock)
               \<and> trace (snd ?rci) = trace w1 @ [Connect host port, Send payload, ClosePush]"
    if wf: "split_on CHR '':'' response_addr = [host, port_text]"
           "int_of_str env port_text = Some port"
           "load_json_file env connection_file = Inr (JObject cf)"
           "prepare_comm_socket env lower_port upper_port w = (Inr comm_sock, w1)"
       and ok: "connect_result env (tick w1) host port = None"
           "encrypt env (json_dumps env ?j) public_key (emit (Connect host port) w1)
              = (Inr payload, w2)"
           "send_result env (tick w2) payload = None"
  proof -
    obtain r w3 where pp: "push_payload env host port ?j public_key w1 = (r, w3)"
      by (cases "push_payload env host port ?j public_key w1")
    from push_payload_sends[OF ok] pp
    have r: "r = Inr ()" and t: "trace w3 = trace w1 @ [Connect host port, Send payload, ClosePush]"
      by simp_all
    show ?thesis
      using return_connection_info_push[OF wf, of kernel_id public_key] pp r t by simp
  qed
  show ?thesis using pull connects sends by blast
qed

theorem pull_mode_or_push_witness:
  "length (split_on CHR '':'' ''10.0.0.5'') \<noteq> 2
   \<and> return_connection_info example_env ''conn.json'' ''10.0.0.5'' 8000 8010 ''k-1''
        example_public_key (fresh_world []) = (Inr None, fresh_world [])
   \<and> int_of_str example_env (split_on CHR '':'' ''10.0.0.5:http'' ! 1) = None
   \<and> return_connection_info example_env ''conn.json'' ''10.0.0.5:http'' 8000 8010 ''k-1''
        example_public_key (fresh_world []) = (Inr None, fresh_world [])
   \<and> split_on CHR '':'' ''10.0.0.5:8877'' = [''10.0.0.5'', ''8877'']
   \<and> int_of_str example_env ''8877'' = Some 8877
   \<and> fst (return_connection_info example_env ''conn.json'' ''10.0.0.5:8877'' 8000 8010 ''k-1''
             example_public_key (fresh_world [])) = Inr (Some 8000)
   \<and> trace (snd (return_connection_info example_env ''conn.json'' ''10.0.0.5:8877'' 8000 8010
                    ''k-1'' example_public_key (fresh_world [])))
       = [Bind 8000, Listen 8000, Connect ''10.0.0.5'' 8877, Send ''e30='', ClosePush]"
proof -
  let ?w1 = "\<lparr>tick = 3, bound = [8000], incoming = [], trace = [Bind 8000, Listen 8000]\<rparr>"
  let ?w2 = "\<lparr>tick = 6, bound = [8000], incoming = [],
              trace = [Bind 8000, Listen 8000, Connect ''10.0.0.5'' 8877]\<rparr>"
  have one: "length (split_on CHR '':'' ''10.0.0.5'') \<noteq> 2" by simp
  have word: "int_of_str example_env (split_on CHR '':'' ''10.0.0.5:http'' ! 1) = None"
    by code_simp
  have parts: "split_on CHR '':'' ''10.0.0.5:8877'' = [''10.0.0.5'', ''8877'']" by simp
  have num: "int_of_str example_env ''8877'' = Some 8877" by code_simp
  have cfile: "load_json_file example_env ''conn.json'' = Inr (JObject example_connection_file)"
    by (simp add: example_env_def)
  have sock: "prepare_comm_socket example_env 8000 8010 (fresh_world []) = (Inr 8000, ?w1)"
    by code_simp
  have conn: "connect_result example_env (tick ?w1) ''10.0.0.5'' 8877 = None"
    by (simp add: example_env_def)
  have enc: "encrypt example_env
               (json_dumps example_env
                  (JObject (add_ids (getpid example_env) (getpgid example_env (getpid example_env))
                              8000 ''k-1'' example_connection_file)))
               example_public_key (emit (Connect ''10.0.0.5'' 8877) ?w1) = (Inr ''e30='', ?w2)"
    by code_simp
  have send: "send_result example_env (tick ?w2) ''e30='' = None"
    by (simp add: example_env_def)
  note th = pull_mode_or_push[of _ example_env "''conn.json''" 8000 8010 "''k-1''"
               example_public_key "fresh_world []"]
  have pull1: "return_connection_info example_env ''conn.json'' ''10.0.0.5'' 8000 8010 ''k-1''
        example_public_key (fresh_world []) = (Inr None, fresh_world [])"
    using th[of "''10.0.0.5''"] one by blast
  have pull2: "return_connection_info example_env ''conn.json'' ''10.0.0.5:http'' 8000 8010
        ''k-1'' example_public_key (fresh_world []) = (Inr None, fresh_world [])"
    using th[of "''10.0.0.5:http''"] word by blast
  have push: "fst (return_connection_info example_env ''conn.json'' ''10.0.0.5:8877'' 8000 8010
                     ''k-1'' example_public_key (fresh_world [])) = Inr (Some 8000)
            \<and> trace (snd (return_connection_info example_env ''conn.json'' ''10.0.0.5:8877''
                     8000 8010 ''k-1'' example_public_key (fresh_world [])))
               = trace ?w1 @ [Connect ''10.0.0.5'' 8877, Send ''e30='', ClosePush]"
    using th[of "''10.0.0.5:8877''" "''10.0.0.5''" "''8877''" 8877 example_connection_file
                8000 ?w1 "''e30=''" ?w2]
          parts num cfile sock conn enc send
    by blast
  show ?thesis using one pull1 word pull2 parts num push by simp
qed

text \<open>
  C8. The dictionary that is sent maps \<open>pid\<close>, \<open>pgid\<close>, \<open>comm_port\<close> and \<open>kernel_id\<close>
  to the given values and every other key to what the connection file maps it to. When
  the connection file has none of these four keys, its items are all kept, in their
  order, and the four new ones are appended to them.
\<close>
theorem add_ids_frame:
  "map_of (add_ids pid pgid comm_port kernel_id cf)
     = (map_of cf)(''pid'' \<mapsto> JInt pid, ''pgid'' \<mapsto> JInt pgid,
                   ''comm_port'' \<mapsto> JInt comm_port, ''kernel_id'' \<mapsto> JString kernel_id)
   \<and> ((\<forall>k \<in> {''pid'', ''pgid'', ''comm_port'', ''kernel_id''}. k \<notin> fst ` set cf)
        \<longrightarrow> add_ids pid pgid comm_port kernel_id cf
              = cf @ [(''pid'', JInt pid), (''pgid'', JInt pgid),
                      (''comm_port'', JInt comm_port), (''kernel_id'', JString kernel_id)])"
proof (intro conjI impI)
  show "map_of (add_ids pid pgid comm_port kernel_id cf)
     = (map_of cf)(''pid'' \<mapsto> JInt pid, ''pgid'' \<mapsto> JInt pgid,
                   ''comm_port'' \<mapsto> JInt comm_port, ''kernel_id'' \<mapsto> JString kernel_id)"
    by (simp add: add_ids_def update_conv')
next
  assume fresh: "\<forall>k \<in> {''pid'', ''pgid'', ''comm_port'', ''kernel_id''}. k \<notin> fst ` set cf"
  have app: "k \<notin> fst ` set al \<Longrightarrow> AList.update k v al = al @ [(k, v)]" for k v and al :: "(str \<times> json) list"
    by (induction al) auto
  have 1: "AList.update ''pid'' (JInt pid) cf = cf @ [(''pid'', JInt pid)]"
    using fresh by (intro app) simp
  have 2: "AList.update ''pgid'' (JInt pgid) (cf @ [(''pid'', JInt pid)])
             = cf @ [(''pid'', JInt pid), (''pgid'', JInt pgid)]"
    using fresh app[of "''pgid''" "cf @ [(''pid'', JInt pid)]"] by simp
  have 3: "AList.update ''comm_port'' (JInt comm_port) (cf @ [(''pid'', JInt pid), (''pgid'', JInt pgid)])
             = cf @ [(''pid'', JInt pid), (''pgid'', JInt pgid), (''comm_port'', JInt comm_port)]"
    using fresh app[of "''comm_port''" "cf @ [(''pid'', JInt pid), (''pgid'', JInt pgid)]"] by simp
  have 4: "AList.update ''kernel_id'' (JString kernel_id)
              (cf @ [(''pid'', JInt pid), (''pgid'', JInt pgid), (''comm_port'', JInt comm_port)])
             = cf @ [(''pid'', JInt pid), (''pgid'', JInt pgid), (''comm_port'', JInt comm_port),
                     (''kernel_id'', JString kernel_id)]"
    using fresh app[of "''kernel_id''"
        "cf @ [(''pid'', JInt pid), (''pgid'', JInt pgid), (''comm_port'', JInt comm_port)]"]
    by simp
  show "add_ids pid pgid comm_port kernel_id cf
              = cf @ [(''pid'', JInt pid), (''pgid'', JInt pgid),
                      (''comm_port'', JInt comm_port), (''kernel_id'', JString kernel_id)]"
    by (simp add: add_ids_def 1 2 3 4)
qed

theorem add_ids_frame_witness:
  "''pid'' \<notin> fst ` set example_connection_file
   \<and> ''pgid'' \<notin> fst ` set example_connection_file
   \<and> ''comm_port'' \<notin> fst ` set example_connection_file
   \<and> ''kernel_id'' \<notin> fst ` set example_connection_file
   \<and> add_ids 4242 4200 8000 ''k-1'' example_connection_file
       = example_connection_file
         @ [(''pid'', JInt 4242), (''pgid'', JInt 4200), (''comm_port'', JInt 8000),
            (''kernel_id'', JString ''k-1'')]
   \<and> map_of (add_ids 4242 4200 8000 ''k-1'' example_connection_file) ''shell_port''
       = Some (JInt 8001)"
proof -
  have f: "''pid'' \<notin> fst ` set example_connection_file"
          "''pgid'' \<notin> fst ` set example_connection_file"
          "''comm_port'' \<notin> fst ` set example_connection_file"
          "''kernel_id'' \<notin> fst ` set example_connection_file"
    by (simp_all add: example_connection_file_def)
  have s: "map_of example_connection_file ''shell_port'' = Some (JInt 8001)"
    by (simp add: example_connection_file_def)
  from add_ids_frame[of 4242 4200 8000 "''k-1''" example_connection_file]
  show ?thesis using f s by simp
qed

section \<open>Properties of the control listener\<close>

lemma get_server_request_connection:
  assumes "incoming w = Connection chunks # rest"
  shows "get_server_request env (Some p) w
           = ((case recv_loop env [] chunks of Inl e \<Rightarrow> except_clause e | Inr r \<Rightarrow> Inr r),
              emit CloseConn ((emit (Accept p) w)\<lparr>incoming := rest\<rparr>))"
  using assms by (simp add: get_server_request_def Let_def split: sum.splits)

lemma served_world:
  "trace (emit CloseConn ((emit (Accept p) w)\<lparr>incoming := rest\<rparr>)) = trace w @ [Accept p, CloseConn]"
  "incoming (emit CloseConn ((emit (Accept p) w)\<lparr>incoming := rest\<rparr>)) = rest"
  "bound (emit CloseConn ((emit (Accept p) w)\<lparr>incoming := rest\<rparr>)) = bound w"
  by (simp_all add: emit_def)


lemma accept_calls_incoming [simp]: "accept_calls (w\<lparr>incoming := i\<rparr>) = accept_calls w"
  by (simp add: accept_calls_def)

lemma py_int_not_null: "py_int env v = Inr n \<Longrightarrow> v \<noteq> JNull"
  by (cases v) auto



text \<open>A request that is a dictionary with a signal number: the block that relays the signal
  runs, and then the \<open>shutdown\<close> entry is read.\<close>

lemma process_request_signum:
  assumes "map_of kvs ''signum'' = Some v" and "v \<noteq> JNull"
  shows "process_request env pid ct (JObject kvs) w =
     (case relay_signal env pid ct v w of
        (Inl e, w1) \<Rightarrow> (Inl e, w1)
      | (Inr u, w1) \<Rightarrow>
          (Inr (case map_of kvs ''shutdown'' of None \<Rightarrow> False | Some s \<Rightarrow> s \<noteq> JNull \<and> truthy s),
           w1))"
proof -
  have "kvs \<noteq> []" using assms(1) by auto
  then show ?thesis using assms
    by (auto simp: process_request_def request_get_def split: sum.splits prod.splits option.splits)
qed


lemma relay_signal_delivered:
  assumes "py_int env v = Inr signum" and "\<forall>t s. kill_result env t pid s = None"
  shows "relay_signal env pid ct v w =
           (Inr (), if signum = 2 \<and> ct = Some ''spark''
                    then emit (Signal pid (SIGUSR2 env)) (emit (Signal pid signum) w)
                    else emit (Signal pid signum) w)"
  using assms by (simp add: relay_signal_def os_kill_def)

lemma relay_signal_kill_fails:
  assumes "py_int env v = Inr signum" and "\<forall>t. kill_result env t pid signum = Some e"
  shows "relay_signal env pid ct v w = (Inl e, emit (KillFailed pid signum e) w)"
  using assms by (simp add: relay_signal_def os_kill_def)











text \<open>The handshake of the example run, and the loop it hands over to.\<close>

lemma example_handshake:
  "return_connection_info example_env ''conn.json'' ''10.0.0.5:8877'' 8000 8010 ''k-1''
      example_public_key (fresh_world conns)
   = (Inr (Some 8000),
      \<lparr>tick = 8, bound = [8000], incoming = conns,
       trace = [Bind 8000, Listen 8000, Connect ''10.0.0.5'' 8877, Send ''e30='', ClosePush]\<rparr>)"
  by code_simp

lemma example_run_loop:
  "example_run parent_pid cluster_type conns
   = leave_function (fresh_world conns)
       (listener_loop example_env parent_pid cluster_type (Some 8000) 10
          \<lparr>tick = 8, bound = [8000], incoming = conns,
           trace = [Bind 8000, Listen 8000, Connect ''10.0.0.5'' 8877, Send ''e30='', ClosePush]\<rparr>)"
  by (simp add: example_run_def server_listener_def example_handshake)

text \<open>
  C3. A request that is a dictionary whose \<open>signum\<close> entry converts to 2 arrives on an
  accepted connection, and the supervised process exists (\<^verbatim>\<open>os.kill\<close> succeeds). Then one
  iteration of the listener's loop accepts, closes the connection and delivers signal 2
  to the supervised process id; when the cluster type is \<^verbatim>\<open>"spark"\<close> it then delivers
  \<open>SIGUSR2\<close> as well, and under any other cluster type it delivers nothing more.
\<close>
theorem interrupt_signal_deliveries:
  assumes conn: "incoming w = Connection chunks # rest"
      and req: "recv_loop env [] chunks = Inr (JObject kvs)"
      and sig: "map_of kvs ''signum'' = Some v" "py_int env v = Inr 2"
      and alive: "\<forall>t s. kill_result env t parent_pid s = None"
  shows "trace (snd (listener_loop env parent_pid cluster_type (Some p) (Suc 0) w))
           = trace w @ [Accept p, CloseConn, Signal parent_pid 2]
               @ (if cluster_type = Some ''spark'' then [Signal parent_pid (SIGUSR2 env)] else [])"
proof -
  let ?w1 = "emit CloseConn ((emit (Accept p) w)\<lparr>incoming := rest\<rparr>)"
  have g: "get_server_request env (Some p) w = (Inr (JObject kvs), ?w1)"
    using get_server_request_connection[OF conn, of env p] req by simp
  have nn: "v \<noteq> JNull" using sig(2) by (rule py_int_not_null)
  have r: "relay_signal env parent_pid cluster_type v ?w1 =
           (Inr (), if cluster_type = Some ''spark''
                    then emit (Signal parent_pid (SIGUSR2 env)) (emit (Signal parent_pid 2) ?w1)
                    else emit (Signal parent_pid 2) ?w1)"
    using relay_signal_delivered[OF sig(2) alive, of cluster_type ?w1] by simp
  show ?thesis
    by (simp add: g process_request_signum[OF sig(1) nn] r served_world)
       (simp add: emit_def)
qed

theorem interrupt_signal_deliveries_witness:
  "recv_loop example_env [] [Data interrupt_request] = Inr (JObject [(''signum'', JInt 2)])
   \<and> trace (snd (listener_loop example_env 4242 (Some ''spark'') (Some 8000) (Suc 0)
                    (fresh_world [Connection [Data interrupt_request]])))
       = [Accept 8000, CloseConn, Signal 4242 2, Signal 4242 12]
   \<and> trace (snd (listener_loop example_env 4242 (Some ''none'') (Some 8000) (Suc 0)
                    (fresh_world [Connection [Data interrupt_request]])))
       = [Accept 8000, CloseConn, Signal 4242 2]"
proof -
  have conn: "incoming (fresh_world [Connection [Data interrupt_request]])
                = Connection [Data interrupt_request] # []"
    by (simp add: fresh_world_def)
  have req: "recv_loop example_env [] [Data interrupt_request]
               = Inr (JObject [(''signum'', JInt 2)])"
    by code_simp
  have sig: "map_of [(''signum'', JInt 2)] ''signum'' = Some (JInt 2)"
            "py_int example_env (JInt 2) = Inr 2"
    by simp_all
  have alive: "\<forall>t s. kill_result example_env t 4242 s = None"
    by (simp add: example_env_def)
  have t0: "trace (fresh_world [Connection [Data interrupt_request]]) = []"
    by (simp add: fresh_world_def)
  have usr2: "SIGUSR2 example_env = 12" by (simp add: example_env_def)
  from interrupt_signal_deliveries[OF conn req sig alive, of "Some ''spark''" 8000]
       interrupt_signal_deliveries[OF conn req sig alive, of "Some ''none''" 8000]
  show ?thesis using req t0 usr2 by simp
qed

text \<open>
  C1, as amended. When the body read from an accepted connection is not JSON, the
  connection is closed once draining ends, and the JSONDecodeError leaves
  \<^verbatim>\<open>get_server_request\<close> and the loop of \<^verbatim>\<open>server_listener\<close>, which has no handler: the
  listener stops with that error, whatever number of iterations it would have run, and
  the connections that come later stay unaccepted.
\<close>
theorem malformed_request_stops_listener:
  assumes conn: "incoming w = Connection chunks # rest"
      and bad: "recv_loop env [] chunks = Inl JSONDecodeError"
  shows "fst (listener_loop env parent_pid cluster_type (Some p) (Suc n) w) = Raised JSONDecodeError
       \<and> trace (snd (listener_loop env parent_pid cluster_type (Some p) (Suc n) w))
           = trace w @ [Accept p, CloseConn]
       \<and> incoming (snd (listener_loop env parent_pid cluster_type (Some p) (Suc n) w)) = rest"
proof -
  let ?w1 = "emit CloseConn ((emit (Accept p) w)\<lparr>incoming := rest\<rparr>)"
  have g: "get_server_request env (Some p) w = (Inl JSONDecodeError, ?w1)"
    using get_server_request_connection[OF conn, of env p] bad by (simp add: except_clause_def)
  show ?thesis by (simp add: g served_world)
qed

theorem malformed_request_stops_listener_witness:
  "recv_loop example_env [] [Data malformed_request] = Inl JSONDecodeError
   \<and> fst (listener_loop example_env 4242 (Some ''none'') (Some 8000) (Suc 9)
            (fresh_world [Connection [Data malformed_request],
                          Connection [Data interrupt_request]]))
       = Raised JSONDecodeError
   \<and> trace (snd (listener_loop example_env 4242 (Some ''none'') (Some 8000) (Suc 9)
            (fresh_world [Connection [Data malformed_request],
                          Connection [Data interrupt_request]])))
       = [Accept 8000, CloseConn]
   \<and> incoming (snd (listener_loop example_env 4242 (Some ''none'') (Some 8000) (Suc 9)
            (fresh_world [Connection [Data malformed_request],
                          Connection [Data interrupt_request]])))
       = [Connection [Data interrupt_request]]"
proof -
  let ?w = "fresh_world [Connection [Data malformed_request], Connection [Data interrupt_request]]"
  have conn: "incoming ?w
                = Connection [Data malformed_request] # [Connection [Data interrupt_request]]"
    by (simp add: fresh_world_def)
  have bad: "recv_loop example_env [] [Data malformed_request] = Inl JSONDecodeError"
    by code_simp
  have t0: "trace ?w = []" by (simp add: fresh_world_def)
  from malformed_request_stops_listener[OF conn bad, of 4242 "Some ''none''" 8000 9]
  show ?thesis using bad t0 by simp
qed

text \<open>
  C1 as stated fails. The example listener receives a body that is not JSON and then an
  interrupt request. It stops with the JSONDecodeError of the first: the second
  connection is never accepted and no signal is delivered; the listening socket is
  closed as the function is left.
\<close>

theorem malformed_request_counterexample:
  "fst (example_run 4242 (Some ''none'')
          [Connection [Data malformed_request], Connection [Data interrupt_request]])
     = Raised JSONDecodeError
   \<and> incoming (snd (example_run 4242 (Some ''none'')
          [Connection [Data malformed_request], Connection [Data interrupt_request]]))
     = [Connection [Data interrupt_request]]
   \<and> trace (snd (example_run 4242 (Some ''none'')
          [Connection [Data malformed_request], Connection [Data interrupt_request]]))
     = [Bind 8000, Listen 8000, Connect ''10.0.0.5'' 8877, Send ''e30='', ClosePush,
        Accept 8000, CloseConn, CloseSock 8000]"
proof -
  have loop: "listener_loop example_env 4242 (Some ''none'') (Some 8000) 10
          \<lparr>tick = 8, bound = [8000],
           incoming = [Connection [Data malformed_request], Connection [Data interrupt_request]],
           trace = [Bind 8000, Listen 8000, Connect ''10.0.0.5'' 8877, Send ''e30='', ClosePush]\<rparr>
        = (Raised JSONDecodeError,
           \<lparr>tick = 10, bound = [8000], incoming = [Connection [Data interrupt_request]],
            trace = [Bind 8000, Listen 8000, Connect ''10.0.0.5'' 8877, Send ''e30='', ClosePush,
                     Accept 8000, CloseConn]\<rparr>)"
    by code_simp
  have leave: "leave_function
          (fresh_world [Connection [Data malformed_request], Connection [Data interrupt_request]])
          (Raised JSONDecodeError,
           \<lparr>tick = 10, bound = [8000], incoming = [Connection [Data interrupt_request]],
            trace = [Bind 8000, Listen 8000, Connect ''10.0.0.5'' 8877, Send ''e30='', ClosePush,
                     Accept 8000, CloseConn]\<rparr>)
        = (Raised JSONDecodeError,
           \<lparr>tick = 11, bound = [], incoming = [Connection [Data interrupt_request]],
            trace = [Bind 8000, Listen 8000, Connect ''10.0.0.5'' 8877, Send ''e30='', ClosePush,
                     Accept 8000, CloseConn, CloseSock 8000]\<rparr>)"
    by code_simp
  show ?thesis by (simp add: example_run_loop loop leave)
qed

text \<open>
  C2, as amended. When \<^verbatim>\<open>os.kill\<close> fails for the supervised process id, the first request
  that carries a signal number makes the listener stop with that error: the connection
  has been accepted and closed, the one failed kill is the last thing that happens, and
  the connections that come later, a second request with the same signal number among
  them, stay unaccepted.
\<close>
theorem failed_signal_stops_listener:
  assumes conn: "incoming w = Connection chunks # rest"
      and req: "recv_loop env [] chunks = Inr (JObject kvs)"
      and sig: "map_of kvs ''signum'' = Some v" "py_int env v = Inr signum"
      and dead: "\<forall>t. kill_result env t parent_pid signum = Some e"
  shows "fst (listener_loop env parent_pid cluster_type (Some p) (Suc n) w) = Raised e
       \<and> trace (snd (listener_loop env parent_pid cluster_type (Some p) (Suc n) w))
           = trace w @ [Accept p, CloseConn, KillFailed parent_pid signum e]
       \<and> incoming (snd (listener_loop env parent_pid cluster_type (Some p) (Suc n) w)) = rest"
proof -
  let ?w1 = "emit CloseConn ((emit (Accept p) w)\<lparr>incoming := rest\<rparr>)"
  have g: "get_server_request env (Some p) w = (Inr (JObject kvs), ?w1)"
    using get_server_request_connection[OF conn, of env p] req by simp
  have nn: "v \<noteq> JNull" using sig(2) by (rule py_int_not_null)
  note r = relay_signal_kill_fails[OF sig(2) dead, of cluster_type ?w1]
  show ?thesis
    by (simp add: g process_request_signum[OF sig(1) nn] r served_world)
       (simp add: emit_def)
qed

theorem failed_signal_stops_listener_witness:
  "recv_loop example_env [] [Data terminate_request] = Inr (JObject [(''signum'', JInt 15)])
   \<and> (\<forall>t. kill_result example_env t no_such_pid 15 = Some ProcessLookupError)
   \<and> fst (listener_loop example_env no_such_pid (Some ''none'') (Some 8000) (Suc 9)
            (fresh_world [Connection [Data terminate_request],
                          Connection [Data terminate_request]]))
       = Raised ProcessLookupError
   \<and> trace (snd (listener_loop example_env no_such_pid (Some ''none'') (Some 8000) (Suc 9)
            (fresh_world [Connection [Data terminate_request],
                          Connection [Data terminate_request]])))
       = [Accept 8000, CloseConn, KillFailed no_such_pid 15 ProcessLookupError]
   \<and> incoming (snd (listener_loop example_env no_such_pid (Some ''none'') (Some 8000) (Suc 9)
            (fresh_world [Connection [Data terminate_request],
                          Connection [Data terminate_request]])))
       = [Connection [Data terminate_request]]"
proof -
  let ?w = "fresh_world [Connection [Data terminate_request], Connection [Data terminate_request]]"
  have conn: "incoming ?w
                = Connection [Data terminate_request] # [Connection [Data terminate_request]]"
    by (simp add: fresh_world_def)
  have req: "recv_loop example_env [] [Data terminate_request]
               = Inr (JObject [(''signum'', JInt 15)])"
    by code_simp
  have sig: "map_of [(''signum'', JInt 15)] ''signum'' = Some (JInt 15)"
            "py_int example_env (JInt 15) = Inr 15"
    by simp_all
  have dead: "\<forall>t. kill_result example_env t no_such_pid 15 = Some ProcessLookupError"
    by (simp add: example_env_def no_such_pid_def)
  have t0: "trace ?w = []" by (simp add: fresh_world_def)
  from failed_signal_stops_listener[OF conn req sig dead, of "Some ''none''" 8000 9]
  show ?thesis using req dead t0 by simp
qed

text \<open>
  C2 as stated fails. The example listener supervises a process id that does not exist
  and receives the same termination request twice. The first \<^verbatim>\<open>os.kill\<close> raises
  ProcessLookupError and the listener stops with it: there is one failed kill, not two,
  and the second connection is never accepted; the listening socket is closed as the
  function is left.
\<close>

theorem failed_signal_counterexample:
  "fst (example_run no_such_pid (Some ''none'')
          [Connection [Data terminate_request], Connection [Data terminate_request]])
     = Raised ProcessLookupError
   \<and> incoming (snd (example_run no_such_pid (Some ''none'')
          [Connection [Data terminate_request], Connection [Data terminate_request]]))
     = [Connection [Data terminate_request]]
   \<and> trace (snd (example_run no_such_pid (Some ''none'')
          [Connection [Data terminate_request], Connection [Data terminate_request]]))
     = [Bind 8000, Listen 8000, Connect ''10.0.0.5'' 8877, Send ''e30='', ClosePush,
        Accept 8000, CloseConn, KillFailed 999 15 ProcessLookupError, CloseSock 8000]"
proof -
  have loop: "listener_loop example_env no_such_pid (Some ''none'') (Some 8000) 10
          \<lparr>tick = 8, bound = [8000],
           incoming = [Connection [Data terminate_request], Connection [Data terminate_request]],
           trace = [Bind 8000, Listen 8000, Connect ''10.0.0.5'' 8877, Send ''e30='', ClosePush]\<rparr>
        = (Raised ProcessLookupError,
           \<lparr>tick = 11, bound = [8000], incoming = [Connection [Data terminate_request]],
            trace = [Bind 8000, Listen 8000, Connect ''10.0.0.5'' 8877, Send ''e30='', ClosePush,
                     Accept 8000, CloseConn, KillFailed 999 15 ProcessLookupError]\<rparr>)"
    by code_simp
  have leave: "leave_function
          (fresh_world [Connection [Data terminate_request], Connection [Data terminate_request]])
          (Raised ProcessLookupError,
           \<lparr>tick = 11, bound = [8000], incoming = [Connection [Data terminate_request]],
            trace = [Bind 8000, Listen 8000, Connect ''10.0.0.5'' 8877, Send ''e30='', ClosePush,
                     Accept 8000, CloseConn, KillFailed 999 15 ProcessLookupError]\<rparr>)
        = (Raised ProcessLookupError,
           \<lparr>tick = 12, bound = [], incoming = [Connection [Data terminate_request]],
            trace = [Bind 8000, Listen 8000, Connect ''10.0.0.5'' 8877, Send ''e30='', ClosePush,
                     Accept 8000, CloseConn, KillFailed 999 15 ProcessLookupError,
                     CloseSock 8000]\<rparr>)"
    by code_simp
  show ?thesis by (simp add: example_run_loop loop leave)
qed




text \<open>
  C10. With a controller address that does not split into two parts at the colons, or
  whose second part is not a number, \<^verbatim>\<open>return_connection_info\<close> returns \<^verbatim>\<open>None\<close>;
  \<^verbatim>\<open>get_server_request\<close> on \<^verbatim>\<open>None\<close> raises AttributeError in every world, accepting
  nothing; and \<^verbatim>\<open>server_listener\<close> enters its loop with that \<^verbatim>\<open>None\<close> and stops in the
  first iteration with the AttributeError, the world untouched.
\<close>
theorem pull_mode_listener_fails:
  assumes "length (split_on CHR '':'' response_addr) \<noteq> 2
           \<or> int_of_str env (split_on CHR '':'' response_addr ! 1) = None"
  shows "return_connection_info env connection_file response_addr lower_port upper_port
            kernel_id public_key w = (Inr None, w)
       \<and> (\<forall>w'. get_server_request env None w' = (Inl AttributeError, w'))
       \<and> server_listener env connection_file response_addr lower_port upper_port kernel_id
            public_key parent_pid cluster_type (Suc n) w = (Raised AttributeError, w)"
proof -
  have r: "return_connection_info env connection_file response_addr lower_port upper_port
            kernel_id public_key w = (Inr None, w)"
    using assms by (auto simp: return_connection_info_def Let_def)
  have g: "\<forall>w'. get_server_request env None w' = (Inl AttributeError, w')"
    by (simp add: get_server_request_def except_clause_def)
  have d: "discard_sockets w w = w"
    by (simp add: discard_sockets_def)
  show ?thesis using r g d by (simp add: server_listener_def leave_function_def)
qed

theorem pull_mode_listener_fails_witness:
  "length (split_on CHR '':'' ''10.0.0.5'') \<noteq> 2
   \<and> return_connection_info example_env ''conn.json'' ''10.0.0.5'' 8000 8010 ''k-1''
        example_public_key (fresh_world [Connection [Data shutdown_request]])
      = (Inr None, fresh_world [Connection [Data shutdown_request]])
   \<and> server_listener example_env ''conn.json'' ''10.0.0.5'' 8000 8010 ''k-1''
        example_public_key 4242 (Some ''none'') (Suc 9)
        (fresh_world [Connection [Data shutdown_request]])
      = (Raised AttributeError, fresh_world [Connection [Data shutdown_request]])"
proof -
  have h: "length (split_on CHR '':'' ''10.0.0.5'') \<noteq> 2" by simp
  then have "length (split_on CHR '':'' ''10.0.0.5'') \<noteq> 2
             \<or> int_of_str example_env (split_on CHR '':'' ''10.0.0.5'' ! 1) = None"
    by (rule disjI1)
  from pull_mode_listener_fails[OF this, of "''conn.json''" 8000 8010 "''k-1''"
         example_public_key "fresh_world [Connection [Data shutdown_request]]"
         4242 "Some ''none''" 9]
  show ?thesis using h by simp
qed

end
